theory Spec2Isabelle
  imports Complex_Main "HOL-Library.Sublist"
begin

section \<open>Values, arrays and errors\<close>

text \<open>
  A shallow embedding of \<^verbatim>\<open>cdvae/pl_data/dataset.py\<close>: the two dataset classes
  \<^verbatim>\<open>CrystDataset\<close> and \<^verbatim>\<open>TensorCrystDataset\<close>, their constructors, \<^verbatim>\<open>__len__\<close>,
  \<^verbatim>\<open>__getitem__\<close> and \<^verbatim>\<open>__repr__\<close>.

  Every exception the Python can raise is a value of type \<open>error\<close>; a method that may
  raise returns \<open>error + 'a\<close> with \<open>Inl\<close> for the exception.
\<close>

datatype error =
    IndexError
  | KeyError string
  | AttributeError
  | TensorConversionError
  | StructuralError
  | OSError string
  | UnpicklingError
  | CollaboratorError string

text \<open>
  A two-dimensional numpy array or torch tensor: its shape and its elements in row-major
  order. \<open>entry a i j\<close> is \<^verbatim>\<open>a[i, j]\<close>.
\<close>

datatype 'a array2 = Array2 (nrows: nat) (ncols: nat) (elems: "'a list")

definition wf_array2 :: "'a array2 \<Rightarrow> bool" where
  "wf_array2 a = (length (elems a) = nrows a * ncols a)"

definition entry :: "'a array2 \<Rightarrow> nat \<Rightarrow> nat \<Rightarrow> 'a" where
  "entry a i j = elems a ! (i * ncols a + j)"

text \<open>
  \<^verbatim>\<open>a.T\<close> followed by \<^verbatim>\<open>.contiguous()\<close>: the axes are swapped and the elements are laid
  out row-major again, so row \<open>j\<close> of the result lists column \<open>j\<close> of \<open>a\<close>.
\<close>

definition array_T :: "'a array2 \<Rightarrow> 'a array2" where
  "array_T a =
     Array2 (ncols a) (nrows a)
       (concat (map (\<lambda>j. map (\<lambda>i. elems a ! (i * ncols a + j)) [0..<nrows a])
                    [0..<ncols a]))"

definition map_array2 :: "('a \<Rightarrow> 'b) \<Rightarrow> 'a array2 \<Rightarrow> 'b array2" where
  "map_array2 f a = Array2 (nrows a) (ncols a) (map f (elems a))"

text \<open>
  The seven-tuple stored under the key \<^verbatim>\<open>'graph_arrays'\<close>, in the order in which
  \<^verbatim>\<open>__getitem__\<close> unpacks it. Integer arrays hold numpy int64 values, which
  \<^verbatim>\<open>torch.LongTensor\<close> keeps as they are; they are modelled as \<open>int\<close>.
\<close>

record graph_arrays =
  ga_frac_coords :: "real array2"
  ga_atom_types :: "int list"
  ga_lengths :: "real list"
  ga_angles :: "real list"
  ga_edge_indices :: "int array2"
  ga_to_jimages :: "int array2"
  ga_num_atoms :: int

text \<open>
  The values a cached record (a Python dict with string keys) can hold: a Python float,
  a numpy float64 scalar, a one-dimensional float64 array, a string, or the tuple of
  graph arrays. A dict is an association list in insertion order.
\<close>

datatype pyval =
    PyFloat real
  | NpFloat real
  | NpFloats "real list"
  | PyStr string
  | PyGraphArrays graph_arrays

type_synonym cached_record = "(string \<times> pyval) list"

text \<open>A torch tensor of any rank holding a property value: shape and flat elements.\<close>

datatype tensor = Tensor (t_shape: "nat list") (t_elems: "real list")

text \<open>
  The attached scaler is an object of a class defined outside this file; only its
  \<^verbatim>\<open>transform\<close> method is used, so a scaler is that method.
\<close>

type_synonym scaler = "tensor \<Rightarrow> error + tensor"

text \<open>The \<^verbatim>\<open>torch_geometric.data.Data\<close> object built by \<^verbatim>\<open>__getitem__\<close>. The field
  \<open>d_y\<close> is \<open>None\<close> when the keyword \<^verbatim>\<open>y\<close> is not passed.\<close>

record data =
  d_frac_coords :: "real array2"
  d_atom_types :: "int list"
  d_lengths :: "real array2"
  d_angles :: "real array2"
  d_edge_index :: "int array2"
  d_to_jimages :: "int array2"
  d_num_atoms :: int
  d_num_bonds :: nat
  d_num_nodes :: int
  d_y :: "real array2 option"

section \<open>Python and torch primitives\<close>

text \<open>\<^verbatim>\<open>xs[index]\<close> on a Python list with an integer index: a negative index counts
  from the end, anything outside \<open>-len \<le> index < len\<close> raises IndexError.\<close>

definition list_getitem :: "'a list \<Rightarrow> int \<Rightarrow> error + 'a" where
  "list_getitem xs index =
     (if 0 \<le> index \<and> index < int (length xs) then Inr (xs ! nat index)
      else if - int (length xs) \<le> index \<and> index < 0
        then Inr (xs ! nat (int (length xs) + index))
      else Inl IndexError)"

text \<open>\<^verbatim>\<open>d[key]\<close> on a dict.\<close>

definition dict_getitem :: "cached_record \<Rightarrow> string \<Rightarrow> error + pyval" where
  "dict_getitem d k = (case map_of d k of None \<Rightarrow> Inl (KeyError k) | Some v \<Rightarrow> Inr v)"

text \<open>
  \<^verbatim>\<open>torch.tensor(v)\<close>: a Python float becomes a float32 scalar tensor (the default
  dtype; \<open>f32\<close> is the rounding to float32), numpy float64 data keep their dtype, a string
  or a tuple of ragged arrays is refused.
\<close>

definition torch_tensor :: "(real \<Rightarrow> real) \<Rightarrow> pyval \<Rightarrow> error + tensor" where
  "torch_tensor f32 v =
     (case v of
        PyFloat x \<Rightarrow> Inr (Tensor [] [f32 x])
      | NpFloat x \<Rightarrow> Inr (Tensor [] [x])
      | NpFloats xs \<Rightarrow> Inr (Tensor [length xs] xs)
      | PyStr s \<Rightarrow> Inl TensorConversionError
      | PyGraphArrays g \<Rightarrow> Inl TensorConversionError)"

text \<open>\<^verbatim>\<open>t.view(1, -1)\<close>: one row holding all elements.\<close>

definition view_row :: "'a list \<Rightarrow> 'a array2" where
  "view_row xs = Array2 1 (length xs) xs"

text \<open>
  The positional unpacking of \<^verbatim>\<open>data_dict['graph_arrays']\<close>. Anything but the
  seven-tuple is a malformed cache: the unpacking or the tensor constructors after it
  raise.
\<close>

definition unpack_graph_arrays :: "pyval \<Rightarrow> error + graph_arrays" where
  "unpack_graph_arrays v =
     (case v of PyGraphArrays g \<Rightarrow> Inr g | _ \<Rightarrow> Inl StructuralError)"

section \<open>The two dataset classes\<close>

text \<open>
  The attributes of the two classes. The element type of \<^verbatim>\<open>cached_data\<close> is a parameter:
  records hold their arrays by value (\<open>cached_record\<close>) where only the contents matter, and
  by reference (\<open>stored_record\<close>, below) where sharing between the cache and the samples
  matters.
\<close>

record 'r cryst_obj =
  cd_path :: string
  cd_save_path :: string
  cd_force_process :: bool
  cd_name :: string
  cd_prop :: string
  cd_niggli :: bool
  cd_primitive :: bool
  cd_graph_method :: string
  cd_lattice_scale_method :: string
  cd_cached_data :: "'r list"
  cd_lattice_scaler :: "scaler option"
  cd_scaler :: "scaler option"

record 'r tensor_obj =
  td_niggli :: bool
  td_primitive :: bool
  td_graph_method :: string
  td_lattice_scale_method :: string
  td_cached_data :: "'r list"
  td_lattice_scaler :: "scaler option"
  td_scaler :: "scaler option"

type_synonym cryst_dataset = "cached_record cryst_obj"

type_synonym tensor_dataset = "cached_record tensor_obj"

text \<open>The keyword arguments of \<^verbatim>\<open>Data(...)\<close> that both classes pass, computed from the
  unpacked tuple; \<open>f32\<close> is the cast of \<^verbatim>\<open>torch.Tensor\<close> to float32.\<close>

definition graph_data :: "(real \<Rightarrow> real) \<Rightarrow> graph_arrays \<Rightarrow> real array2 option \<Rightarrow> data" where
  "graph_data f32 ga target =
     \<lparr> d_frac_coords = map_array2 f32 (ga_frac_coords ga),
       d_atom_types = ga_atom_types ga,
       d_lengths = view_row (map f32 (ga_lengths ga)),
       d_angles = view_row (map f32 (ga_angles ga)),
       d_edge_index = array_T (ga_edge_indices ga),
       d_to_jimages = ga_to_jimages ga,
       d_num_atoms = ga_num_atoms ga,
       d_num_bonds = nrows (ga_edge_indices ga),
       d_num_nodes = ga_num_atoms ga,
       d_y = target \<rparr>"

definition CrystDataset_len :: "'r cryst_obj \<Rightarrow> nat" where
  "CrystDataset_len ds = length (cd_cached_data ds)"

text \<open>
  \<^verbatim>\<open>CrystDataset.__getitem__\<close>. Python evaluates \<^verbatim>\<open>self.scaler.transform\<close> before the
  argument of the call, so with \<^verbatim>\<open>self.scaler is None\<close> the attribute lookup raises
  before the property is looked up. The guard that would raise
  \<^verbatim>\<open>ValueError("Scaler should be set before used")\<close> is commented out in the source and
  is therefore not part of the model.
\<close>

definition CrystDataset_getitem :: "(real \<Rightarrow> real) \<Rightarrow> cryst_dataset \<Rightarrow> int \<Rightarrow> error + data" where
  "CrystDataset_getitem f32 ds index =
     (case list_getitem (cd_cached_data ds) index of
        Inl e \<Rightarrow> Inl e
      | Inr data_dict \<Rightarrow>
     (case cd_scaler ds of
        None \<Rightarrow> Inl AttributeError
      | Some transform \<Rightarrow>
     (case dict_getitem data_dict (cd_prop ds) of
        Inl e \<Rightarrow> Inl e
      | Inr v \<Rightarrow>
     (case torch_tensor f32 v of
        Inl e \<Rightarrow> Inl e
      | Inr t \<Rightarrow>
     (case transform t of
        Inl e \<Rightarrow> Inl e
      | Inr prop \<Rightarrow>
     (case dict_getitem data_dict ''graph_arrays'' of
        Inl e \<Rightarrow> Inl e
      | Inr g \<Rightarrow>
     (case unpack_graph_arrays g of
        Inl e \<Rightarrow> Inl e
      | Inr ga \<Rightarrow> Inr (graph_data f32 ga (Some (view_row (t_elems prop)))))))))))"

definition TensorCrystDataset_len :: "'r tensor_obj \<Rightarrow> nat" where
  "TensorCrystDataset_len ds = length (td_cached_data ds)"

definition TensorCrystDataset_getitem :: "(real \<Rightarrow> real) \<Rightarrow> tensor_dataset \<Rightarrow> int \<Rightarrow> error + data" where
  "TensorCrystDataset_getitem f32 ds index =
     (case list_getitem (td_cached_data ds) index of
        Inl e \<Rightarrow> Inl e
      | Inr data_dict \<Rightarrow>
     (case dict_getitem data_dict ''graph_arrays'' of
        Inl e \<Rightarrow> Inl e
      | Inr g \<Rightarrow>
     (case unpack_graph_arrays g of
        Inl e \<Rightarrow> Inl e
      | Inr ga \<Rightarrow> Inr (graph_data f32 ga None))))"

text \<open>
  \<^verbatim>\<open>repr\<close> of a Python \<^verbatim>\<open>str\<close>, which the \<^verbatim>\<open>{expr=}\<close> form of an f-string applies:
  single quotes unless the string holds a single quote and no double quote; the
  backslash, the chosen quote, newline, carriage return and tab are escaped with a
  backslash, every other character that \<^verbatim>\<open>str.isprintable\<close> refuses as \<^verbatim>\<open>\xhh\<close>.

  A \<open>char\<close> stands for the code point of its value, so the strings here are those of
  code points below 256; there the non-printable ones are the controls 0 to 31 and 127
  to 159, the no-break space 160 and the soft hyphen 173.
\<close>

definition is_printable :: "char \<Rightarrow> bool" where
  "is_printable c =
     (32 \<le> (of_char c :: nat) \<and> (of_char c :: nat) \<noteq> 173 \<and>
      \<not> (127 \<le> (of_char c :: nat) \<and> (of_char c :: nat) \<le> 160))"

definition hex_digit :: "nat \<Rightarrow> char" where
  "hex_digit n = ''0123456789abcdef'' ! (n mod 16)"

definition repr_char :: "char \<Rightarrow> char \<Rightarrow> string" where
  "repr_char q c =
     (if c = CHR 0x5C then [CHR 0x5C, CHR 0x5C]
      else if c = q then [CHR 0x5C, q]
      else if c = CHR 0x0A then [CHR 0x5C, CHR ''n'']
      else if c = CHR 0x0D then [CHR 0x5C, CHR ''r'']
      else if c = CHR 0x09 then [CHR 0x5C, CHR ''t'']
      else if \<not> is_printable c
        then [CHR 0x5C, CHR ''x'', hex_digit ((of_char c :: nat) div 16), hex_digit (of_char c :: nat)]
      else [c])"

definition repr_str :: "string \<Rightarrow> string" where
  "repr_str s =
     (let q = (if CHR 0x27 \<in> set s \<and> CHR 0x22 \<notin> set s then CHR 0x22 else CHR 0x27)
      in [q] @ concat (map (repr_char q) s) @ [q])"

text \<open>\<^verbatim>\<open>CrystDataset.__repr__\<close>:
  \<^verbatim>\<open>f"CrystDataset({self.name=}, {self.path=}, {self.save_path=})"\<close>.\<close>

definition CrystDataset_repr :: "'r cryst_obj \<Rightarrow> string" where
  "CrystDataset_repr ds =
     ''CrystDataset(self.name='' @ repr_str (cd_name ds) @
     '', self.path='' @ repr_str (cd_path ds) @
     '', self.save_path='' @ repr_str (cd_save_path ds) @ '')''"

section \<open>Construction: the file system, the collaborators and the trace of calls\<close>

text \<open>
  The constructors call functions of \<^verbatim>\<open>cdvae.common.data_utils\<close>, which is not part of
  this file, and the labelled one reads and writes the pickle file at \<^verbatim>\<open>save_path\<close>.
  The collaborators are parameters (a record of functions that may raise). Every
  collaborator call, print and pickle operation is appended to a trace, so that how often
  and in which order they happen can be stated.

  The file system is what the operating system answers to the three requests the
  constructor makes of a path, each a component of its own: whether
  \<^verbatim>\<open>Path(p).exists()\<close>; whether \<^verbatim>\<open>open(p, 'wb')\<close> succeeds, and with which \<^verbatim>\<open>OSError\<close> it
  fails (a missing parent directory, a directory at \<open>p\<close>, a missing permission); and what
  \<^verbatim>\<open>open(p, 'rb')\<close> gives, an \<^verbatim>\<open>OSError\<close> or the content of the file. No relation between
  the three is assumed: \<^verbatim>\<open>Path('').exists()\<close> is true while \<^verbatim>\<open>open('', 'rb')\<close> raises.
  A file holds a pickled list of records or bytes that \<^verbatim>\<open>pickle.load\<close> refuses.

  In Python \<^verbatim>\<open>add_scaled_lattice_prop\<close> mutates the list it is given and returns nothing;
  here it returns the updated list. \<^verbatim>\<open>pickle.dump\<close> writes the list as it is at the
  moment of the call, so the file holds the value passed to \<open>Pickle_dump\<close>.
\<close>

datatype blob = Pickled "cached_record list" | Corrupt

record filesystem =
  fs_exists :: "string \<Rightarrow> bool"
  fs_open_wb :: "string \<Rightarrow> error option"
  fs_open_rb :: "string \<Rightarrow> error + blob"

datatype event =
    Call_preprocess string int bool bool string "string list"
  | Call_preprocess_tensors bool bool string
  | Call_add_scaled_lattice_prop "cached_record list" string
  | Print string
  | Pickle_dump string "cached_record list"
  | Pickle_load string

record world =
  fs :: filesystem
  trace :: "event list"

record 'c collaborators =
  preprocess :: "string \<Rightarrow> int \<Rightarrow> bool \<Rightarrow> bool \<Rightarrow> string \<Rightarrow> string list \<Rightarrow> error + cached_record list"
  preprocess_tensors :: "'c list \<Rightarrow> bool \<Rightarrow> bool \<Rightarrow> string \<Rightarrow> error + cached_record list"
  add_scaled_lattice_prop :: "cached_record list \<Rightarrow> string \<Rightarrow> error + cached_record list"

definition log_event :: "event \<Rightarrow> world \<Rightarrow> world" where
  "log_event ev w = w\<lparr>trace := trace w @ [ev]\<rparr>"

text \<open>\<^verbatim>\<open>Path(p).exists()\<close>.\<close>

definition path_exists :: "world \<Rightarrow> string \<Rightarrow> bool" where
  "path_exists w p = fs_exists (fs w) p"

text \<open>
  \<^verbatim>\<open>pickle.dump(recs, open(p, 'wb'))\<close>: when the file cannot be opened for writing the
  \<^verbatim>\<open>OSError\<close> is raised and nothing is written; otherwise the file is created or
  replaced, so that from then on \<open>p\<close> exists and reading it gives the pickled list.
\<close>

definition pickle_dump :: "cached_record list \<Rightarrow> string \<Rightarrow> world \<Rightarrow> (error + unit) \<times> world" where
  "pickle_dump recs p w =
     (let w1 = log_event (Pickle_dump p recs) w in
      case fs_open_wb (fs w1) p of
        Some e \<Rightarrow> (Inl e, w1)
      | None \<Rightarrow>
          (Inr (),
           w1\<lparr>fs := (fs w1)\<lparr>fs_exists := (fs_exists (fs w1))(p := True),
                             fs_open_rb := (fs_open_rb (fs w1))(p := Inr (Pickled recs))\<rparr>\<rparr>))"

text \<open>\<^verbatim>\<open>pickle.load(open(p, 'rb'))\<close>.\<close>

definition pickle_load :: "string \<Rightarrow> world \<Rightarrow> (error + cached_record list) \<times> world" where
  "pickle_load p w =
     (let w1 = log_event (Pickle_load p) w in
      case fs_open_rb (fs w1) p of
        Inl e \<Rightarrow> (Inl e, w1)
      | Inr Corrupt \<Rightarrow> (Inl UnpicklingError, w1)
      | Inr (Pickled recs) \<Rightarrow> (Inr recs, w1))"

text \<open>The arguments of \<^verbatim>\<open>CrystDataset.__init__\<close>.\<close>

record cryst_args =
  a_name :: string
  a_path :: string
  a_save_path :: string
  a_force_process :: bool
  a_prop :: string
  a_niggli :: bool
  a_primitive :: bool
  a_graph_method :: string
  a_preprocess_workers :: int
  a_lattice_scale_method :: string

text \<open>The object \<^verbatim>\<open>CrystDataset.__init__\<close> has built when it returns: the arguments as it
  stored them, the record list, and both scaler attributes \<^verbatim>\<open>None\<close>.\<close>

definition CrystDataset_object :: "cryst_args \<Rightarrow> cached_record list \<Rightarrow> cryst_dataset" where
  "CrystDataset_object a recs =
     \<lparr> cd_path = a_path a, cd_save_path = a_save_path a,
       cd_force_process = a_force_process a, cd_name = a_name a,
       cd_prop = a_prop a, cd_niggli = a_niggli a,
       cd_primitive = a_primitive a, cd_graph_method = a_graph_method a,
       cd_lattice_scale_method = a_lattice_scale_method a,
       cd_cached_data = recs,
       cd_lattice_scaler = None, cd_scaler = None \<rparr>"

text \<open>
  The tail shared by both branches of \<^verbatim>\<open>CrystDataset.__init__\<close>:
  \<^verbatim>\<open>add_scaled_lattice_prop(self.cached_data, lattice_scale_method)\<close>, then both scaler
  attributes are set to \<^verbatim>\<open>None\<close>.
\<close>

definition cryst_finish ::
  "'c collaborators \<Rightarrow> cryst_args \<Rightarrow> cached_record list \<Rightarrow> world \<Rightarrow> (error + cryst_dataset) \<times> world" where
  "cryst_finish env a recs w =
     (let w1 = log_event (Call_add_scaled_lattice_prop recs (a_lattice_scale_method a)) w in
      case add_scaled_lattice_prop env recs (a_lattice_scale_method a) of
        Inl e \<Rightarrow> (Inl e, w1)
      | Inr recs' \<Rightarrow> (Inr (CrystDataset_object a recs'), w1))"

definition CrystDataset_init ::
  "'c collaborators \<Rightarrow> cryst_args \<Rightarrow> world \<Rightarrow> (error + cryst_dataset) \<times> world" where
  "CrystDataset_init env a w =
     (if a_force_process a \<or> \<not> path_exists w (a_save_path a) then
        (let w1 = log_event (Call_preprocess (a_path a) (a_preprocess_workers a) (a_niggli a)
                               (a_primitive a) (a_graph_method a) [a_prop a]) w in
         case preprocess env (a_path a) (a_preprocess_workers a) (a_niggli a)
                (a_primitive a) (a_graph_method a) [a_prop a] of
           Inl e \<Rightarrow> (Inl e, w1)
         | Inr recs \<Rightarrow>
             (let w2 = log_event (Print (''Dump into '' @ a_save_path a @ '' ...'')) w1 in
              case pickle_dump recs (a_save_path a) w2 of
                (Inl e, w3) \<Rightarrow> (Inl e, w3)
              | (Inr u, w3) \<Rightarrow> cryst_finish env a recs w3))
      else
        (let w1 = log_event (Print (''Load from '' @ a_save_path a @ '' ...'')) w in
         case pickle_load (a_save_path a) w1 of
           (Inl e, w2) \<Rightarrow> (Inl e, w2)
         | (Inr recs, w2) \<Rightarrow> cryst_finish env a recs w2))"

text \<open>The arguments of \<^verbatim>\<open>TensorCrystDataset.__init__\<close>; \<^verbatim>\<open>preprocess_workers\<close> is
  accepted and not used.\<close>

record 'c tensor_args =
  ta_crystal_array_list :: "'c list"
  ta_niggli :: bool
  ta_primitive :: bool
  ta_graph_method :: string
  ta_preprocess_workers :: int
  ta_lattice_scale_method :: string

definition TensorCrystDataset_object :: "'c tensor_args \<Rightarrow> cached_record list \<Rightarrow> tensor_dataset" where
  "TensorCrystDataset_object a recs =
     \<lparr> td_niggli = ta_niggli a, td_primitive = ta_primitive a,
       td_graph_method = ta_graph_method a,
       td_lattice_scale_method = ta_lattice_scale_method a,
       td_cached_data = recs,
       td_lattice_scaler = None, td_scaler = None \<rparr>"

definition TensorCrystDataset_init ::
  "'c collaborators \<Rightarrow> 'c tensor_args \<Rightarrow> world \<Rightarrow> (error + tensor_dataset) \<times> world" where
  "TensorCrystDataset_init env a w =
     (let w1 = log_event (Call_preprocess_tensors (ta_niggli a) (ta_primitive a)
                            (ta_graph_method a)) w in
      case preprocess_tensors env (ta_crystal_array_list a) (ta_niggli a) (ta_primitive a)
             (ta_graph_method a) of
        Inl e \<Rightarrow> (Inl e, w1)
      | Inr recs \<Rightarrow>
          (let w2 = log_event (Call_add_scaled_lattice_prop recs (ta_lattice_scale_method a)) w1 in
           case add_scaled_lattice_prop env recs (ta_lattice_scale_method a) of
             Inl e \<Rightarrow> (Inl e, w2)
           | Inr recs' \<Rightarrow> (Inr (TensorCrystDataset_object a recs'), w2)))"


fun is_add_scaled_call :: "event \<Rightarrow> bool" where
  "is_add_scaled_call (Call_add_scaled_lattice_prop recs m) = True"
| "is_add_scaled_call ev = False"

fun is_file_event :: "event \<Rightarrow> bool" where
  "is_file_event (Pickle_dump p recs) = True"
| "is_file_event (Pickle_load p) = True"
| "is_file_event ev = False"

definition count_events :: "(event \<Rightarrow> bool) \<Rightarrow> event list \<Rightarrow> nat" where
  "count_events P evs = length (filter P evs)"

section \<open>Arrays by reference: what a sample shares with the cache\<close>

text \<open>
  The arrays of a cached record are mutable numpy arrays, and a tensor built from one of
  them may share its memory. To state what an access does to the state of the program,
  the arrays live in a heap of buffers, a record holds the addresses of its arrays, and
  \<^verbatim>\<open>__getitem__\<close> is a function from states to states that returns the addresses of the
  tensors of the sample:
  \<^item> \<^verbatim>\<open>torch.Tensor(a)\<close> of a float64 array converts to float32 into a new buffer;
  \<^item> \<^verbatim>\<open>torch.LongTensor(a)\<close> of an int64 array shares the buffer of \<open>a\<close>;
  \<^item> \<^verbatim>\<open>.contiguous()\<close> copies the transposed edge list into a new buffer, unless the
    transposed layout is already row-major (at most one row or one column), when it
    returns the view itself;
  \<^item> \<^verbatim>\<open>torch.tensor(v)\<close> always copies, and the tensor the scaler returns is new.
  The lists and dicts of the cache are not reachable from a sample and are held by value.
\<close>

type_synonym addr = nat

datatype buffer =
    IntVec "int list"
  | IntMat "int array2"
  | RealVec "real list"
  | RealMat "real array2"

record graph_refs =
  gr_frac_coords :: addr
  gr_atom_types :: addr
  gr_lengths :: addr
  gr_angles :: addr
  gr_edge_indices :: addr
  gr_to_jimages :: addr
  gr_num_atoms :: int

datatype pyref =
    RefFloat real
  | RefNpFloat real
  | RefNpFloats addr
  | RefStr string
  | RefGraphArrays graph_refs

type_synonym stored_record = "(string \<times> pyref) list"

text \<open>A tensor over a buffer of the heap: the buffer as it is, or its transposed view.\<close>

datatype tref = Whole addr | Transposed addr

text \<open>The \<^verbatim>\<open>Data\<close> object with its tensors by reference.\<close>

record sample =
  s_frac_coords :: addr
  s_atom_types :: addr
  s_lengths :: addr
  s_angles :: addr
  s_edge_index :: tref
  s_to_jimages :: addr
  s_num_atoms :: int
  s_num_bonds :: nat
  s_num_nodes :: int
  s_y :: "addr option"

text \<open>The state: the dataset object \<^verbatim>\<open>self\<close> and the heap.\<close>

record 'o pystate =
  st_self :: 'o
  st_heap :: "buffer list"

text \<open>Reading a buffer of a given kind. An address outside the heap or of another kind
  does not occur in a well-formed state; the read fails there.\<close>

definition is_int_vec :: "buffer list \<Rightarrow> addr \<Rightarrow> bool" where
  "is_int_vec h a = (a < length h \<and> (case h ! a of IntVec xs \<Rightarrow> True | _ \<Rightarrow> False))"

definition is_int_mat :: "buffer list \<Rightarrow> addr \<Rightarrow> bool" where
  "is_int_mat h a = (a < length h \<and> (case h ! a of IntMat m \<Rightarrow> True | _ \<Rightarrow> False))"

definition is_real_vec :: "buffer list \<Rightarrow> addr \<Rightarrow> bool" where
  "is_real_vec h a = (a < length h \<and> (case h ! a of RealVec xs \<Rightarrow> True | _ \<Rightarrow> False))"

definition is_real_mat :: "buffer list \<Rightarrow> addr \<Rightarrow> bool" where
  "is_real_mat h a = (a < length h \<and> (case h ! a of RealMat m \<Rightarrow> True | _ \<Rightarrow> False))"

definition int_vec :: "buffer list \<Rightarrow> addr \<Rightarrow> int list" where
  "int_vec h a = (case h ! a of IntVec xs \<Rightarrow> xs | _ \<Rightarrow> [])"

definition int_mat :: "buffer list \<Rightarrow> addr \<Rightarrow> int array2" where
  "int_mat h a = (case h ! a of IntMat m \<Rightarrow> m | _ \<Rightarrow> Array2 0 0 [])"

definition real_vec :: "buffer list \<Rightarrow> addr \<Rightarrow> real list" where
  "real_vec h a = (case h ! a of RealVec xs \<Rightarrow> xs | _ \<Rightarrow> [])"

definition real_mat :: "buffer list \<Rightarrow> addr \<Rightarrow> real array2" where
  "real_mat h a = (case h ! a of RealMat m \<Rightarrow> m | _ \<Rightarrow> Array2 0 0 [])"

text \<open>Allocation of a new buffer: the next address, the heap extended by one.\<close>

definition alloc :: "buffer \<Rightarrow> 'o pystate \<Rightarrow> addr \<times> 'o pystate" where
  "alloc b s = (length (st_heap s), s\<lparr>st_heap := st_heap s @ [b]\<rparr>)"

text \<open>Sequencing of steps that may raise: the first error ends the computation.\<close>

definition bind_py ::
  "('o pystate \<Rightarrow> (error + 'a) \<times> 'o pystate) \<Rightarrow> ('a \<Rightarrow> 'o pystate \<Rightarrow> (error + 'b) \<times> 'o pystate)
     \<Rightarrow> 'o pystate \<Rightarrow> (error + 'b) \<times> 'o pystate" where
  "bind_py m f s = (case m s of (Inl e, s') \<Rightarrow> (Inl e, s') | (Inr x, s') \<Rightarrow> f x s')"

text \<open>\<^verbatim>\<open>torch.Tensor(a)\<close> of a float64 matrix, and of a float64 vector followed by
  \<^verbatim>\<open>.view(1, -1)\<close> (a view of the new buffer).\<close>

definition copy_real_mat :: "(real \<Rightarrow> real) \<Rightarrow> addr \<Rightarrow> 'o pystate \<Rightarrow> (error + addr) \<times> 'o pystate" where
  "copy_real_mat f32 a s =
     (if is_real_mat (st_heap s) a
      then (case alloc (RealMat (map_array2 f32 (real_mat (st_heap s) a))) s of
              (a', s') \<Rightarrow> (Inr a', s'))
      else (Inl StructuralError, s))"

definition copy_real_vec :: "(real \<Rightarrow> real) \<Rightarrow> addr \<Rightarrow> 'o pystate \<Rightarrow> (error + addr) \<times> 'o pystate" where
  "copy_real_vec f32 a s =
     (if is_real_vec (st_heap s) a
      then (case alloc (RealVec (map f32 (real_vec (st_heap s) a))) s of
              (a', s') \<Rightarrow> (Inr a', s'))
      else (Inl StructuralError, s))"

text \<open>\<^verbatim>\<open>torch.LongTensor(a)\<close> of an int64 vector or matrix: the same buffer.\<close>

definition share_int_vec :: "addr \<Rightarrow> 'o pystate \<Rightarrow> (error + addr) \<times> 'o pystate" where
  "share_int_vec a s = (if is_int_vec (st_heap s) a then (Inr a, s) else (Inl StructuralError, s))"

definition share_int_mat :: "addr \<Rightarrow> 'o pystate \<Rightarrow> (error + addr) \<times> 'o pystate" where
  "share_int_mat a s = (if is_int_mat (st_heap s) a then (Inr a, s) else (Inl StructuralError, s))"

text \<open>\<^verbatim>\<open>torch.LongTensor(a.T).contiguous()\<close>.\<close>

definition transposed_contiguous :: "addr \<Rightarrow> 'o pystate \<Rightarrow> (error + tref) \<times> 'o pystate" where
  "transposed_contiguous a s =
     (if is_int_mat (st_heap s) a
      then (if nrows (int_mat (st_heap s) a) \<le> 1 \<or> ncols (int_mat (st_heap s) a) \<le> 1
            then (Inr (Transposed a), s)
            else (case alloc (IntMat (array_T (int_mat (st_heap s) a))) s of
                    (a', s') \<Rightarrow> (Inr (Whole a'), s')))
      else (Inl StructuralError, s))"

text \<open>The tensor the scaler returned, as a new buffer.\<close>

definition new_tensor :: "tensor \<Rightarrow> 'o pystate \<Rightarrow> (error + addr) \<times> 'o pystate" where
  "new_tensor t s = (case alloc (RealVec (t_elems t)) s of (a', s') \<Rightarrow> (Inr a', s'))"

text \<open>The keyword arguments of \<^verbatim>\<open>Data(...)\<close>, evaluated in the order of the source.\<close>

definition build_sample ::
  "(real \<Rightarrow> real) \<Rightarrow> graph_refs \<Rightarrow> addr option \<Rightarrow> 'o pystate \<Rightarrow> (error + sample) \<times> 'o pystate" where
  "build_sample f32 gr target =
     bind_py (copy_real_mat f32 (gr_frac_coords gr)) (\<lambda>fc.
     bind_py (share_int_vec (gr_atom_types gr)) (\<lambda>ats.
     bind_py (copy_real_vec f32 (gr_lengths gr)) (\<lambda>ls.
     bind_py (copy_real_vec f32 (gr_angles gr)) (\<lambda>angs.
     bind_py (transposed_contiguous (gr_edge_indices gr)) (\<lambda>ei.
     bind_py (share_int_mat (gr_to_jimages gr)) (\<lambda>tj s.
       (Inr \<lparr> s_frac_coords = fc, s_atom_types = ats, s_lengths = ls, s_angles = angs,
              s_edge_index = ei, s_to_jimages = tj,
              s_num_atoms = gr_num_atoms gr,
              s_num_bonds = nrows (int_mat (st_heap s) (gr_edge_indices gr)),
              s_num_nodes = gr_num_atoms gr,
              s_y = target \<rparr>, s)))))))"

text \<open>Lookups in a record held by reference, mirroring those by value.\<close>

definition ref_getitem :: "stored_record \<Rightarrow> string \<Rightarrow> error + pyref" where
  "ref_getitem d k = (case map_of d k of None \<Rightarrow> Inl (KeyError k) | Some v \<Rightarrow> Inr v)"

definition unpack_graph_refs :: "pyref \<Rightarrow> error + graph_refs" where
  "unpack_graph_refs v =
     (case v of RefGraphArrays g \<Rightarrow> Inr g | _ \<Rightarrow> Inl StructuralError)"

definition torch_tensor_ref :: "(real \<Rightarrow> real) \<Rightarrow> buffer list \<Rightarrow> pyref \<Rightarrow> error + tensor" where
  "torch_tensor_ref f32 h v =
     (case v of
        RefFloat x \<Rightarrow> Inr (Tensor [] [f32 x])
      | RefNpFloat x \<Rightarrow> Inr (Tensor [] [x])
      | RefNpFloats a \<Rightarrow>
          (if is_real_vec h a
           then Inr (Tensor [length (real_vec h a)] (real_vec h a))
           else Inl StructuralError)
      | RefStr s \<Rightarrow> Inl TensorConversionError
      | RefGraphArrays g \<Rightarrow> Inl TensorConversionError)"

text \<open>Lifting of a step that does not touch the state.\<close>

definition pure_py :: "error + 'a \<Rightarrow> 'o pystate \<Rightarrow> (error + 'a) \<times> 'o pystate" where
  "pure_py r s = (r, s)"

text \<open>\<^verbatim>\<open>CrystDataset.__len__\<close> and \<^verbatim>\<open>CrystDataset.__getitem__\<close> on a state.\<close>

definition CrystDataset_len_st ::
  "stored_record cryst_obj pystate \<Rightarrow> nat \<times> stored_record cryst_obj pystate" where
  "CrystDataset_len_st s = (length (cd_cached_data (st_self s)), s)"

definition CrystDataset_getitem_st ::
  "(real \<Rightarrow> real) \<Rightarrow> int \<Rightarrow> stored_record cryst_obj pystate
     \<Rightarrow> (error + sample) \<times> stored_record cryst_obj pystate" where
  "CrystDataset_getitem_st f32 index s0 =
     bind_py (pure_py (list_getitem (cd_cached_data (st_self s0)) index)) (\<lambda>data_dict.
     bind_py (\<lambda>s. (case cd_scaler (st_self s) of
                      None \<Rightarrow> Inl AttributeError | Some transform \<Rightarrow> Inr transform, s))
       (\<lambda>transform.
     bind_py (pure_py (ref_getitem data_dict (cd_prop (st_self s0)))) (\<lambda>v.
     bind_py (\<lambda>s. (torch_tensor_ref f32 (st_heap s) v, s)) (\<lambda>t.
     bind_py (pure_py (transform t)) (\<lambda>prop.
     bind_py (new_tensor prop) (\<lambda>y.
     bind_py (pure_py (ref_getitem data_dict ''graph_arrays'')) (\<lambda>g.
     bind_py (pure_py (unpack_graph_refs g)) (\<lambda>gr.
       build_sample f32 gr (Some y))))))))) s0"

text \<open>\<^verbatim>\<open>TensorCrystDataset.__len__\<close> and \<^verbatim>\<open>TensorCrystDataset.__getitem__\<close> on a state.\<close>

definition TensorCrystDataset_len_st ::
  "stored_record tensor_obj pystate \<Rightarrow> nat \<times> stored_record tensor_obj pystate" where
  "TensorCrystDataset_len_st s = (length (td_cached_data (st_self s)), s)"

definition TensorCrystDataset_getitem_st ::
  "(real \<Rightarrow> real) \<Rightarrow> int \<Rightarrow> stored_record tensor_obj pystate
     \<Rightarrow> (error + sample) \<times> stored_record tensor_obj pystate" where
  "TensorCrystDataset_getitem_st f32 index s0 =
     bind_py (pure_py (list_getitem (td_cached_data (st_self s0)) index)) (\<lambda>data_dict.
     bind_py (pure_py (ref_getitem data_dict ''graph_arrays'')) (\<lambda>g.
     bind_py (pure_py (unpack_graph_refs g)) (\<lambda>gr.
       build_sample f32 gr None))) s0"

text \<open>
  What a client can do with a constructed dataset: ask its length, index it, or attach a
  scaler by assignment (\<^verbatim>\<open>dataset.scaler = scaler\<close>, as \<^verbatim>\<open>main\<close> does). A session is a
  list of such requests, each run in the state the one before left.
\<close>

datatype request = Len | At int | Attach_scaler scaler | Attach_lattice_scaler scaler

datatype response = Length nat | Item "error + sample" | Done

fun cryst_step ::
  "(real \<Rightarrow> real) \<Rightarrow> request \<Rightarrow> stored_record cryst_obj pystate
     \<Rightarrow> response \<times> stored_record cryst_obj pystate" where
  "cryst_step f32 Len s = (case CrystDataset_len_st s of (n, s') \<Rightarrow> (Length n, s'))"
| "cryst_step f32 (At i) s = (case CrystDataset_getitem_st f32 i s of (r, s') \<Rightarrow> (Item r, s'))"
| "cryst_step f32 (Attach_scaler sc) s = (Done, s\<lparr>st_self := (st_self s)\<lparr>cd_scaler := Some sc\<rparr>\<rparr>)"
| "cryst_step f32 (Attach_lattice_scaler sc) s =
     (Done, s\<lparr>st_self := (st_self s)\<lparr>cd_lattice_scaler := Some sc\<rparr>\<rparr>)"

fun cryst_run ::
  "(real \<Rightarrow> real) \<Rightarrow> request list \<Rightarrow> stored_record cryst_obj pystate
     \<Rightarrow> response list \<times> stored_record cryst_obj pystate" where
  "cryst_run f32 [] s = ([], s)"
| "cryst_run f32 (r # rs) s =
     (case cryst_step f32 r s of (x, s') \<Rightarrow>
        (case cryst_run f32 rs s' of (xs, s'') \<Rightarrow> (x # xs, s'')))"

fun tensor_step ::
  "(real \<Rightarrow> real) \<Rightarrow> request \<Rightarrow> stored_record tensor_obj pystate
     \<Rightarrow> response \<times> stored_record tensor_obj pystate" where
  "tensor_step f32 Len s = (case TensorCrystDataset_len_st s of (n, s') \<Rightarrow> (Length n, s'))"
| "tensor_step f32 (At i) s =
     (case TensorCrystDataset_getitem_st f32 i s of (r, s') \<Rightarrow> (Item r, s'))"
| "tensor_step f32 (Attach_scaler sc) s = (Done, s\<lparr>st_self := (st_self s)\<lparr>td_scaler := Some sc\<rparr>\<rparr>)"
| "tensor_step f32 (Attach_lattice_scaler sc) s =
     (Done, s\<lparr>st_self := (st_self s)\<lparr>td_lattice_scaler := Some sc\<rparr>\<rparr>)"

fun tensor_run ::
  "(real \<Rightarrow> real) \<Rightarrow> request list \<Rightarrow> stored_record tensor_obj pystate
     \<Rightarrow> response list \<times> stored_record tensor_obj pystate" where
  "tensor_run f32 [] s = ([], s)"
| "tensor_run f32 (r # rs) s =
     (case tensor_step f32 r s of (x, s') \<Rightarrow>
        (case tensor_run f32 rs s' of (xs, s'') \<Rightarrow> (x # xs, s'')))"

fun is_read :: "request \<Rightarrow> bool" where
  "is_read Len = True"
| "is_read (At i) = True"
| "is_read r = False"

text \<open>
  Following the references: the record, the dataset and the sample by value, as the
  heap has them.
\<close>

definition deref_graph :: "buffer list \<Rightarrow> graph_refs \<Rightarrow> graph_arrays" where
  "deref_graph h gr =
     \<lparr> ga_frac_coords = real_mat h (gr_frac_coords gr),
       ga_atom_types = int_vec h (gr_atom_types gr),
       ga_lengths = real_vec h (gr_lengths gr),
       ga_angles = real_vec h (gr_angles gr),
       ga_edge_indices = int_mat h (gr_edge_indices gr),
       ga_to_jimages = int_mat h (gr_to_jimages gr),
       ga_num_atoms = gr_num_atoms gr \<rparr>"

definition deref_val :: "buffer list \<Rightarrow> pyref \<Rightarrow> pyval" where
  "deref_val h v =
     (case v of
        RefFloat x \<Rightarrow> PyFloat x
      | RefNpFloat x \<Rightarrow> NpFloat x
      | RefNpFloats a \<Rightarrow> NpFloats (real_vec h a)
      | RefStr s \<Rightarrow> PyStr s
      | RefGraphArrays gr \<Rightarrow> PyGraphArrays (deref_graph h gr))"

definition deref_record :: "buffer list \<Rightarrow> stored_record \<Rightarrow> cached_record" where
  "deref_record h d = map (\<lambda>(k, v). (k, deref_val h v)) d"

definition deref_cryst :: "stored_record cryst_obj pystate \<Rightarrow> cryst_dataset" where
  "deref_cryst s =
     \<lparr> cd_path = cd_path (st_self s), cd_save_path = cd_save_path (st_self s),
       cd_force_process = cd_force_process (st_self s), cd_name = cd_name (st_self s),
       cd_prop = cd_prop (st_self s), cd_niggli = cd_niggli (st_self s),
       cd_primitive = cd_primitive (st_self s), cd_graph_method = cd_graph_method (st_self s),
       cd_lattice_scale_method = cd_lattice_scale_method (st_self s),
       cd_cached_data = map (deref_record (st_heap s)) (cd_cached_data (st_self s)),
       cd_lattice_scaler = cd_lattice_scaler (st_self s), cd_scaler = cd_scaler (st_self s) \<rparr>"

definition deref_tensor :: "stored_record tensor_obj pystate \<Rightarrow> tensor_dataset" where
  "deref_tensor s =
     \<lparr> td_niggli = td_niggli (st_self s), td_primitive = td_primitive (st_self s),
       td_graph_method = td_graph_method (st_self s),
       td_lattice_scale_method = td_lattice_scale_method (st_self s),
       td_cached_data = map (deref_record (st_heap s)) (td_cached_data (st_self s)),
       td_lattice_scaler = td_lattice_scaler (st_self s), td_scaler = td_scaler (st_self s) \<rparr>"

definition deref_tref :: "buffer list \<Rightarrow> tref \<Rightarrow> int array2" where
  "deref_tref h t = (case t of Whole a \<Rightarrow> int_mat h a | Transposed a \<Rightarrow> array_T (int_mat h a))"

definition deref_sample :: "buffer list \<Rightarrow> sample \<Rightarrow> data" where
  "deref_sample h x =
     \<lparr> d_frac_coords = real_mat h (s_frac_coords x),
       d_atom_types = int_vec h (s_atom_types x),
       d_lengths = view_row (real_vec h (s_lengths x)),
       d_angles = view_row (real_vec h (s_angles x)),
       d_edge_index = deref_tref h (s_edge_index x),
       d_to_jimages = int_mat h (s_to_jimages x),
       d_num_atoms = s_num_atoms x,
       d_num_bonds = s_num_bonds x,
       d_num_nodes = s_num_nodes x,
       d_y = map_option (\<lambda>a. view_row (real_vec h a)) (s_y x) \<rparr>"

text \<open>Well-formed states: every address a record holds is allocated and of its kind.\<close>

definition wf_graph :: "buffer list \<Rightarrow> graph_refs \<Rightarrow> bool" where
  "wf_graph h gr =
     (is_real_mat h (gr_frac_coords gr) \<and> is_int_vec h (gr_atom_types gr) \<and>
      is_real_vec h (gr_lengths gr) \<and> is_real_vec h (gr_angles gr) \<and>
      is_int_mat h (gr_edge_indices gr) \<and> is_int_mat h (gr_to_jimages gr))"

definition wf_val :: "buffer list \<Rightarrow> pyref \<Rightarrow> bool" where
  "wf_val h v =
     (case v of
        RefNpFloats a \<Rightarrow> is_real_vec h a
      | RefGraphArrays gr \<Rightarrow> wf_graph h gr
      | _ \<Rightarrow> True)"

definition wf_record :: "buffer list \<Rightarrow> stored_record \<Rightarrow> bool" where
  "wf_record h d = list_all (\<lambda>(k, v). wf_val h v) d"

definition wf_cryst :: "stored_record cryst_obj pystate \<Rightarrow> bool" where
  "wf_cryst s = list_all (wf_record (st_heap s)) (cd_cached_data (st_self s))"

definition wf_tensor :: "stored_record tensor_obj pystate \<Rightarrow> bool" where
  "wf_tensor s = list_all (wf_record (st_heap s)) (td_cached_data (st_self s))"

definition wf_sample :: "buffer list \<Rightarrow> sample \<Rightarrow> bool" where
  "wf_sample h x =
     (is_real_mat h (s_frac_coords x) \<and> is_int_vec h (s_atom_types x) \<and>
      is_real_vec h (s_lengths x) \<and> is_real_vec h (s_angles x) \<and>
      (case s_edge_index x of Whole a \<Rightarrow> is_int_mat h a | Transposed a \<Rightarrow> is_int_mat h a) \<and>
      is_int_mat h (s_to_jimages x) \<and>
      (case s_y x of None \<Rightarrow> True | Some a \<Rightarrow> is_real_vec h a))"

text \<open>Two results are structurally equal in a heap when both are the same error or
  samples with the same contents.\<close>

definition result_value :: "buffer list \<Rightarrow> error + sample \<Rightarrow> error + data" where
  "result_value h r = (case r of Inl e \<Rightarrow> Inl e | Inr x \<Rightarrow> Inr (deref_sample h x))"

section \<open>Predicates of the specification and sample data\<close>

text \<open>\<open>t\<close> is the transpose of \<open>a\<close>: the shape is swapped and \<open>t[j, i] = a[i, j]\<close>.\<close>

definition is_transpose_of :: "'a array2 \<Rightarrow> 'a array2 \<Rightarrow> bool" where
  "is_transpose_of t a =
     (nrows t = ncols a \<and> ncols t = nrows a \<and>
      (\<forall>i<nrows a. \<forall>j<ncols a. entry t j i = entry a i j))"

text \<open>The invariant the specification states for a cached record: the stored atom count
  equals the row count of the coordinate array and the length of the atom-type array.\<close>

definition record_invariant :: "graph_arrays \<Rightarrow> bool" where
  "record_invariant ga =
     (ga_num_atoms ga = int (nrows (ga_frac_coords ga)) \<and>
      length (ga_atom_types ga) = nrows (ga_frac_coords ga))"

text \<open>The indices a Python list accepts.\<close>

definition in_range :: "'a list \<Rightarrow> int \<Rightarrow> bool" where
  "in_range xs index = (- int (length xs) \<le> index \<and> index < int (length xs))"

text \<open>The events a constructor appended to the trace, and the condition under which
  \<^verbatim>\<open>CrystDataset.__init__\<close> takes its first branch.\<close>

definition new_events :: "world \<Rightarrow> world \<Rightarrow> event list" where
  "new_events w w' = drop (length (trace w)) (trace w')"

definition compute_path :: "cryst_args \<Rightarrow> world \<Rightarrow> bool" where
  "compute_path a w = (a_force_process a \<or> \<not> path_exists w (a_save_path a))"

text \<open>Strings that \<^verbatim>\<open>repr\<close> leaves as they are between single quotes: printable
  characters other than the backslash and the single quote.\<close>

definition plain_char :: "char \<Rightarrow> bool" where
  "plain_char c = (is_printable c \<and> c \<noteq> CHR 0x5C \<and> c \<noteq> CHR 0x27)"

definition plain_str :: "string \<Rightarrow> bool" where
  "plain_str s = list_all plain_char s"

text \<open>
  What a step leaves of the state it started in: the dataset object is the same and the
  heap has only grown, so every buffer that existed holds what it held.
\<close>

definition frame :: "'o pystate \<Rightarrow> 'o pystate \<Rightarrow> bool" where
  "frame s s' = (st_self s' = st_self s \<and> prefix (st_heap s) (st_heap s'))"

text \<open>A two-atom crystal with three periodic bonds, the record that holds it, a scaler
  that subtracts the mean 2, and a dataset of each class over that one record.\<close>

definition ga0 :: graph_arrays where
  "ga0 = \<lparr> ga_frac_coords = Array2 2 3 [0, 0, 0, 1/2, 1/2, 1/2],
           ga_atom_types = [11, 17],
           ga_lengths = [4, 4, 4],
           ga_angles = [90, 90, 90],
           ga_edge_indices = Array2 3 2 [0, 1, 1, 0, 1, 1],
           ga_to_jimages = Array2 3 3 [0, 0, 0, 0, 0, 0, 1, 0, 0],
           ga_num_atoms = 2 \<rparr>"

definition rec0 :: cached_record where
  "rec0 = [(''graph_arrays'', PyGraphArrays ga0), (''formation_energy'', NpFloat 3),
           (''scaled_lattice'', NpFloats [4, 4, 4, 90, 90, 90])]"

definition scaler0 :: scaler where
  "scaler0 t = Inr (Tensor (t_shape t) (map (\<lambda>x. x - 2) (t_elems t)))"

definition ds0 :: cryst_dataset where
  "ds0 = \<lparr> cd_path = ''data/train.csv'', cd_save_path = ''data/train.pt'',
           cd_force_process = False, cd_name = ''perov'', cd_prop = ''formation_energy'',
           cd_niggli = True, cd_primitive = False, cd_graph_method = ''crystalnn'',
           cd_lattice_scale_method = ''scale_length'', cd_cached_data = [rec0],
           cd_lattice_scaler = None, cd_scaler = None \<rparr>"

definition td0 :: tensor_dataset where
  "td0 = \<lparr> td_niggli = True, td_primitive = False, td_graph_method = ''crystalnn'',
           td_lattice_scale_method = ''scale_length'', td_cached_data = [rec0],
           td_lattice_scaler = None, td_scaler = None \<rparr>"

text \<open>
  Sample collaborators and worlds: preprocessing returns the one record \<open>raw0\<close> (or one
  record per crystal array), the augmentation appends the key \<^verbatim>\<open>'scaled_lattice'\<close>. In
  \<open>world0\<close> the directory \<^verbatim>\<open>data\<close> holds the source file only; in \<open>world1\<close> it also holds the
  pickle file; in \<open>world2\<close> there is no directory \<^verbatim>\<open>data\<close>, so nothing can be opened there.
\<close>

definition raw0 :: cached_record where
  "raw0 = [(''graph_arrays'', PyGraphArrays ga0), (''formation_energy'', NpFloat 3)]"

definition env0 :: "nat collaborators" where
  "env0 = \<lparr> preprocess = (\<lambda>p n g r m ps. Inr [raw0]),
            preprocess_tensors = (\<lambda>cs g r m. Inr (map (\<lambda>c. [(''graph_arrays'', PyGraphArrays ga0)]) cs)),
            add_scaled_lattice_prop =
              (\<lambda>recs m. Inr (map (\<lambda>r. r @ [(''scaled_lattice'', NpFloats [4, 4, 4, 90, 90, 90])]) recs)) \<rparr>"

definition args0 :: cryst_args where
  "args0 = \<lparr> a_name = ''perov'', a_path = ''data/train.csv'', a_save_path = ''data/train.pt'',
             a_force_process = False, a_prop = ''formation_energy'', a_niggli = True,
             a_primitive = False, a_graph_method = ''crystalnn'', a_preprocess_workers = 4,
             a_lattice_scale_method = ''scale_length'' \<rparr>"

definition targs0 :: "nat tensor_args" where
  "targs0 = \<lparr> ta_crystal_array_list = [0, 1], ta_niggli = True, ta_primitive = False,
              ta_graph_method = ''crystalnn'', ta_preprocess_workers = 4,
              ta_lattice_scale_method = ''scale_length'' \<rparr>"

definition world0 :: world where
  "world0 =
     \<lparr> fs = \<lparr> fs_exists = (\<lambda>p. p = ''data'' \<or> p = ''data/train.csv''),
              fs_open_wb = (\<lambda>p. if p = ''data/train.pt'' \<or> p = ''data/train.csv''
                                then None else Some (OSError ''ENOENT'')),
              fs_open_rb = (\<lambda>p. if p = ''data/train.csv'' then Inr Corrupt
                                else Inl (OSError ''ENOENT'')) \<rparr>,
       trace = [] \<rparr>"

definition world1 :: world where
  "world1 =
     \<lparr> fs = \<lparr> fs_exists = (\<lambda>p. p = ''data'' \<or> p = ''data/train.csv'' \<or> p = ''data/train.pt''),
              fs_open_wb = (\<lambda>p. if p = ''data/train.pt'' \<or> p = ''data/train.csv''
                                then None else Some (OSError ''ENOENT'')),
              fs_open_rb = (\<lambda>p. if p = ''data/train.pt'' then Inr (Pickled [raw0])
                                else if p = ''data/train.csv'' then Inr Corrupt
                                else Inl (OSError ''ENOENT'')) \<rparr>,
       trace = [] \<rparr>"


definition td2 :: tensor_dataset where
  "td2 = \<lparr> td_niggli = True, td_primitive = False, td_graph_method = ''crystalnn'',
            td_lattice_scale_method = ''scale_length'',
            td_cached_data = [[(''graph_arrays'', PyGraphArrays ga0),
                               (''scaled_lattice'', NpFloats [4, 4, 4, 90, 90, 90])],
                              [(''graph_arrays'', PyGraphArrays ga0),
                               (''scaled_lattice'', NpFloats [4, 4, 4, 90, 90, 90])]],
            td_lattice_scaler = None, td_scaler = None \<rparr>"

text \<open>
  The same record by reference: a heap holding its arrays, the record with their
  addresses, a state of each class over it, and the sample and the buffers that an
  access at index 0 of the labelled state adds.
\<close>

definition heap0 :: "buffer list" where
  "heap0 = [RealMat (Array2 2 3 [0, 0, 0, 1/2, 1/2, 1/2]), IntVec [11, 17],
            RealVec [4, 4, 4], RealVec [90, 90, 90],
            IntMat (Array2 3 2 [0, 1, 1, 0, 1, 1]),
            IntMat (Array2 3 3 [0, 0, 0, 0, 0, 0, 1, 0, 0]),
            RealVec [4, 4, 4, 90, 90, 90]]"

definition srec0 :: stored_record where
  "srec0 = [(''graph_arrays'',
             RefGraphArrays \<lparr> gr_frac_coords = 0, gr_atom_types = 1, gr_lengths = 2,
               gr_angles = 3, gr_edge_indices = 4, gr_to_jimages = 5, gr_num_atoms = 2 \<rparr>),
            (''formation_energy'', RefNpFloat 3),
            (''scaled_lattice'', RefNpFloats 6)]"

definition cstate0 :: "stored_record cryst_obj pystate" where
  "cstate0 =
     \<lparr> st_self =
         \<lparr> cd_path = ''data/train.csv'', cd_save_path = ''data/train.pt'',
           cd_force_process = False, cd_name = ''perov'', cd_prop = ''formation_energy'',
           cd_niggli = True, cd_primitive = False, cd_graph_method = ''crystalnn'',
           cd_lattice_scale_method = ''scale_length'', cd_cached_data = [srec0],
           cd_lattice_scaler = None, cd_scaler = Some scaler0 \<rparr>,
       st_heap = heap0 \<rparr>"

definition tstate0 :: "stored_record tensor_obj pystate" where
  "tstate0 =
     \<lparr> st_self =
         \<lparr> td_niggli = True, td_primitive = False, td_graph_method = ''crystalnn'',
           td_lattice_scale_method = ''scale_length'', td_cached_data = [srec0],
           td_lattice_scaler = None, td_scaler = None \<rparr>,
       st_heap = heap0 \<rparr>"

definition sample0 :: sample where
  "sample0 = \<lparr> s_frac_coords = 8, s_atom_types = 1, s_lengths = 9, s_angles = 10,
                s_edge_index = Whole 11, s_to_jimages = 5, s_num_atoms = 2, s_num_bonds = 3,
                s_num_nodes = 2, s_y = Some 7 \<rparr>"

definition new_buffers0 :: "buffer list" where
  "new_buffers0 = [RealVec [1], RealMat (Array2 2 3 [0, 0, 0, 1/2, 1/2, 1/2]),
                   RealVec [4, 4, 4], RealVec [90, 90, 90],
                   IntMat (Array2 2 3 [0, 1, 1, 1, 0, 1])]"

section \<open>Auxiliary lemmas\<close>

lemma length_concat_rows:
  "length (concat (map (\<lambda>j. map (f j) [0..<m]) [0..<n])) = n * m"
  by (induction n) simp_all

lemma nth_concat_rows:
  "j < n \<Longrightarrow> i < m \<Longrightarrow> concat (map (\<lambda>j. map (f j) [0..<m]) [0..<n]) ! (j * m + i) = f j i"
proof (induction n)
  case 0
  then show ?case by simp
next
  case (Suc n)
  show ?case
  proof (cases "j < n")
    case True
    then have "j * m + i < n * m"
    proof -
      from True have "Suc j \<le> n" by simp
      then have "Suc j * m \<le> n * m" by (rule mult_le_mono1)
      with \<open>i < m\<close> show ?thesis by simp
    qed
    with Suc True show ?thesis
      by (simp add: nth_append length_concat_rows)
  next
    case False
    with Suc.prems have "j = n" by simp
    with Suc.prems show ?thesis
      by (simp add: nth_append length_concat_rows)
  qed
qed

lemma array_T_is_transpose: "is_transpose_of (array_T a) a"
  unfolding is_transpose_of_def array_T_def entry_def
  by (simp add: nth_concat_rows)

lemma array_T_wf: "wf_array2 (array_T a)"
  unfolding wf_array2_def array_T_def by (simp add: length_concat_rows)

lemma list_getitem_cases:
  "list_getitem xs index =
     (if in_range xs index
      then Inr (xs ! nat (if index < 0 then int (length xs) + index else index))
      else Inl IndexError)"
  unfolding list_getitem_def in_range_def by auto

lemma getitem_cryst_result:
  assumes "list_getitem (cd_cached_data ds) index = Inr rec"
    and "dict_getitem rec ''graph_arrays'' = Inr (PyGraphArrays ga)"
    and "CrystDataset_getitem f32 ds index = Inr g"
  shows "\<exists>target. g = graph_data f32 ga (Some target)"
  using assms
  by (auto simp: CrystDataset_getitem_def unpack_graph_arrays_def
           split: sum.splits option.splits)

lemma getitem_tensor_result:
  assumes "list_getitem (td_cached_data td) index = Inr rec"
    and "dict_getitem rec ''graph_arrays'' = Inr (PyGraphArrays ga)"
  shows "TensorCrystDataset_getitem f32 td index = Inr (graph_data f32 ga None)"
  using assms
  by (simp add: TensorCrystDataset_getitem_def unpack_graph_arrays_def)

lemma getitem_cryst_success:
  assumes "list_getitem (cd_cached_data ds) index = Inr rec"
    and "dict_getitem rec ''graph_arrays'' = Inr (PyGraphArrays ga)"
    and "cd_scaler ds = Some tr"
    and "dict_getitem rec (cd_prop ds) = Inr v"
    and "torch_tensor f32 v = Inr t"
    and "tr t = Inr p"
  shows "CrystDataset_getitem f32 ds index = Inr (graph_data f32 ga (Some (view_row (t_elems p))))"
  using assms
  by (simp add: CrystDataset_getitem_def unpack_graph_arrays_def)

lemma ds0_getitem:
  "CrystDataset_getitem (\<lambda>x. x) (ds0\<lparr>cd_scaler := Some scaler0\<rparr>) 0
     = Inr (graph_data (\<lambda>x. x) ga0 (Some (Array2 1 1 [1])))"
  by (simp add: CrystDataset_getitem_def ds0_def list_getitem_def rec0_def dict_getitem_def
        torch_tensor_def scaler0_def unpack_graph_arrays_def view_row_def)

text \<open>The state-passing model: frames, heap extension, and agreement with the model by value.\<close>

lemma frame_refl: "frame s s"
  by (simp add: frame_def)

lemma frame_trans: "frame s s' \<Longrightarrow> frame s' s'' \<Longrightarrow> frame s s''"
  by (auto simp: frame_def)

lemma frame_alloc: "alloc b s = (a, s') \<Longrightarrow> frame s s'"
  by (auto simp: alloc_def frame_def)

lemma frame_bind:
  assumes "bind_py m f s = (r, s'')"
    and "\<And>r' s'. m s = (r', s') \<Longrightarrow> frame s s'"
    and "\<And>x s'. m s = (Inr x, s') \<Longrightarrow> f x s' = (r, s'') \<Longrightarrow> frame s' s''"
  shows "frame s s''"
proof (cases "m s")
  case (Pair r' s')
  show ?thesis
  proof (cases r')
    case (Inl e)
    with Pair assms(1) have "s'' = s'" by (simp add: bind_py_def)
    with assms(2) [OF Pair] show ?thesis by simp
  next
    case (Inr x)
    with Pair assms(1) have "f x s' = (r, s'')" by (simp add: bind_py_def)
    with assms(3) Pair Inr have "frame s' s''" by simp
    with assms(2) [OF Pair] show ?thesis by (rule frame_trans)
  qed
qed

lemma frame_pure: "pure_py v s = (r, s') \<Longrightarrow> frame s s'"
  by (auto simp: pure_py_def frame_def)

lemma frame_copy_real_mat: "copy_real_mat f32 a s = (r, s') \<Longrightarrow> frame s s'"
  by (auto simp: copy_real_mat_def alloc_def frame_def split: if_splits)

lemma frame_copy_real_vec: "copy_real_vec f32 a s = (r, s') \<Longrightarrow> frame s s'"
  by (auto simp: copy_real_vec_def alloc_def frame_def split: if_splits)

lemma frame_share_int_vec: "share_int_vec a s = (r, s') \<Longrightarrow> frame s s'"
  by (auto simp: share_int_vec_def frame_def split: if_splits)

lemma frame_share_int_mat: "share_int_mat a s = (r, s') \<Longrightarrow> frame s s'"
  by (auto simp: share_int_mat_def frame_def split: if_splits)

lemma frame_transposed_contiguous: "transposed_contiguous a s = (r, s') \<Longrightarrow> frame s s'"
  by (auto simp: transposed_contiguous_def alloc_def frame_def split: if_splits)

lemma frame_new_tensor: "new_tensor t s = (r, s') \<Longrightarrow> frame s s'"
  by (auto simp: new_tensor_def alloc_def frame_def)

lemma frame_build_sample: "build_sample f32 gr target s = (r, s') \<Longrightarrow> frame s s'"
  unfolding build_sample_def
  apply (erule frame_bind, erule frame_copy_real_mat)
  apply (erule frame_bind, erule frame_share_int_vec)
  apply (erule frame_bind, erule frame_copy_real_vec)
  apply (erule frame_bind, erule frame_copy_real_vec)
  apply (erule frame_bind, erule frame_transposed_contiguous)
  apply (erule frame_bind, erule frame_share_int_mat)
  apply (simp add: frame_def)
  done

lemma frame_cryst_getitem: "CrystDataset_getitem_st f32 index s = (r, s') \<Longrightarrow> frame s s'"
  unfolding CrystDataset_getitem_st_def
  apply (erule frame_bind, erule frame_pure)
  apply (erule frame_bind, simp add: frame_def)
  apply (erule frame_bind, erule frame_pure)
  apply (erule frame_bind, simp add: frame_def)
  apply (erule frame_bind, erule frame_pure)
  apply (erule frame_bind, erule frame_new_tensor)
  apply (erule frame_bind, erule frame_pure)
  apply (erule frame_bind, erule frame_pure)
  apply (erule frame_build_sample)
  done

lemma frame_tensor_getitem: "TensorCrystDataset_getitem_st f32 index s = (r, s') \<Longrightarrow> frame s s'"
  unfolding TensorCrystDataset_getitem_st_def
  apply (erule frame_bind, erule frame_pure)
  apply (erule frame_bind, erule frame_pure)
  apply (erule frame_bind, erule frame_pure)
  apply (erule frame_build_sample)
  done

lemma is_append:
  "is_int_vec h a \<Longrightarrow> is_int_vec (h @ n) a"
  "is_int_mat h a \<Longrightarrow> is_int_mat (h @ n) a"
  "is_real_vec h a \<Longrightarrow> is_real_vec (h @ n) a"
  "is_real_mat h a \<Longrightarrow> is_real_mat (h @ n) a"
  by (simp_all add: is_int_vec_def is_int_mat_def is_real_vec_def is_real_mat_def nth_append)

lemma read_append:
  "is_int_vec h a \<Longrightarrow> int_vec (h @ n) a = int_vec h a"
  "is_int_mat h a \<Longrightarrow> int_mat (h @ n) a = int_mat h a"
  "is_real_vec h a \<Longrightarrow> real_vec (h @ n) a = real_vec h a"
  "is_real_mat h a \<Longrightarrow> real_mat (h @ n) a = real_mat h a"
  by (simp_all add: is_int_vec_def is_int_mat_def is_real_vec_def is_real_mat_def
        int_vec_def int_mat_def real_vec_def real_mat_def nth_append)

lemma read_new:
  "is_real_vec (h @ [RealVec xs]) (length h)" "real_vec (h @ [RealVec xs]) (length h) = xs"
  "is_real_mat (h @ [RealMat m]) (length h)" "real_mat (h @ [RealMat m]) (length h) = m"
  "is_int_mat (h @ [IntMat k]) (length h)" "int_mat (h @ [IntMat k]) (length h) = k"
  by (simp_all add: is_int_mat_def is_real_vec_def is_real_mat_def
        int_mat_def real_vec_def real_mat_def)

lemma wf_graph_append: "wf_graph h gr \<Longrightarrow> wf_graph (h @ n) gr"
  by (simp add: wf_graph_def is_append)

lemma deref_graph_append: "wf_graph h gr \<Longrightarrow> deref_graph (h @ n) gr = deref_graph h gr"
  by (simp add: wf_graph_def deref_graph_def read_append)

lemma wf_val_append: "wf_val h v \<Longrightarrow> wf_val (h @ n) v"
  by (cases v) (simp_all add: wf_val_def is_append wf_graph_append)

lemma deref_val_append: "wf_val h v \<Longrightarrow> deref_val (h @ n) v = deref_val h v"
  by (cases v) (simp_all add: wf_val_def deref_val_def read_append deref_graph_append)

lemma wf_record_append: "wf_record h d \<Longrightarrow> wf_record (h @ n) d"
  by (induction d) (auto simp: wf_record_def wf_val_append)

lemma deref_record_append: "wf_record h d \<Longrightarrow> deref_record (h @ n) d = deref_record h d"
  by (induction d) (auto simp: wf_record_def deref_record_def deref_val_append)

lemma wf_records_append:
  "list_all (wf_record h) ds \<Longrightarrow> list_all (wf_record (h @ n)) ds"
  by (induction ds) (simp_all add: wf_record_append)

lemma deref_records_append:
  "list_all (wf_record h) ds \<Longrightarrow> map (deref_record (h @ n)) ds = map (deref_record h) ds"
  by (induction ds) (simp_all add: deref_record_append)

lemma wf_sample_append: "wf_sample h x \<Longrightarrow> wf_sample (h @ n) x"
  by (auto simp: wf_sample_def is_append split: tref.splits option.splits)

lemma deref_sample_append: "wf_sample h x \<Longrightarrow> deref_sample (h @ n) x = deref_sample h x"
  by (cases "s_edge_index x"; cases "s_y x")
     (simp_all add: wf_sample_def deref_sample_def deref_tref_def read_append)

lemma frame_wf_cryst: "frame s s' \<Longrightarrow> wf_cryst s \<Longrightarrow> wf_cryst s'"
  by (auto simp: frame_def wf_cryst_def prefix_def wf_records_append)

lemma frame_deref_cryst: "frame s s' \<Longrightarrow> wf_cryst s \<Longrightarrow> deref_cryst s' = deref_cryst s"
proof -
  assume f: "frame s s'" and w: "wf_cryst s"
  from f obtain zs where z: "st_heap s' = st_heap s @ zs" and e: "st_self s' = st_self s"
    by (auto simp: frame_def prefix_def)
  from w have "map (deref_record (st_heap s @ zs)) (cd_cached_data (st_self s))
      = map (deref_record (st_heap s)) (cd_cached_data (st_self s))"
    unfolding wf_cryst_def by (rule deref_records_append)
  with z e show ?thesis by (simp add: deref_cryst_def)
qed

lemma frame_wf_tensor: "frame s s' \<Longrightarrow> wf_tensor s \<Longrightarrow> wf_tensor s'"
  by (auto simp: frame_def wf_tensor_def prefix_def wf_records_append)

lemma frame_deref_tensor: "frame s s' \<Longrightarrow> wf_tensor s \<Longrightarrow> deref_tensor s' = deref_tensor s"
proof -
  assume f: "frame s s'" and w: "wf_tensor s"
  from f obtain zs where z: "st_heap s' = st_heap s @ zs" and e: "st_self s' = st_self s"
    by (auto simp: frame_def prefix_def)
  from w have "map (deref_record (st_heap s @ zs)) (td_cached_data (st_self s))
      = map (deref_record (st_heap s)) (td_cached_data (st_self s))"
    unfolding wf_tensor_def by (rule deref_records_append)
  with z e show ?thesis by (simp add: deref_tensor_def)
qed

lemma frame_wf_sample: "frame s s' \<Longrightarrow> wf_sample (st_heap s) x \<Longrightarrow> wf_sample (st_heap s') x"
  by (auto simp: frame_def prefix_def wf_sample_append)

lemma frame_deref_sample:
  "frame s s' \<Longrightarrow> wf_sample (st_heap s) x \<Longrightarrow> deref_sample (st_heap s') x = deref_sample (st_heap s) x"
  by (auto simp: frame_def prefix_def deref_sample_append)

lemma build_sample_sim:
  assumes "wf_graph (st_heap s) gr"
    and "case target of None \<Rightarrow> True | Some a \<Rightarrow> is_real_vec (st_heap s) a"
    and "build_sample f32 gr target s = (r, s')"
  shows "\<exists>x. r = Inr x \<and> wf_sample (st_heap s') x \<and>
           deref_sample (st_heap s') x
             = graph_data f32 (deref_graph (st_heap s) gr)
                 (map_option (\<lambda>a. view_row (real_vec (st_heap s) a)) target)"
  using assms
  by (cases target)
     (auto simp: build_sample_def bind_py_def copy_real_mat_def copy_real_vec_def
        share_int_vec_def share_int_mat_def transposed_contiguous_def alloc_def
        wf_graph_def wf_sample_def deref_sample_def deref_graph_def graph_data_def
        deref_tref_def view_row_def
        is_int_vec_def is_int_mat_def is_real_vec_def is_real_mat_def
        int_vec_def int_mat_def real_vec_def real_mat_def nth_append
        split: if_splits)

lemma list_getitem_map:
  "list_getitem (map f xs) i = (case list_getitem xs i of Inl e \<Rightarrow> Inl e | Inr x \<Rightarrow> Inr (f x))"
  by (auto simp: list_getitem_def)

lemma list_getitem_in_set: "list_getitem xs i = Inr x \<Longrightarrow> x \<in> set xs"
  by (auto simp: list_getitem_def split: if_splits)

lemma dict_getitem_deref:
  "dict_getitem (deref_record h d) k
     = (case ref_getitem d k of Inl e \<Rightarrow> Inl e | Inr v \<Rightarrow> Inr (deref_val h v))"
  by (simp add: dict_getitem_def ref_getitem_def deref_record_def map_of_map
        split: option.splits)

lemma ref_getitem_wf: "wf_record h d \<Longrightarrow> ref_getitem d k = Inr v \<Longrightarrow> wf_val h v"
  by (auto simp: wf_record_def ref_getitem_def list_all_iff split: option.splits
        dest!: map_of_SomeD)

lemma torch_tensor_deref: "wf_val h v \<Longrightarrow> torch_tensor f32 (deref_val h v) = torch_tensor_ref f32 h v"
  by (cases v) (simp_all add: wf_val_def deref_val_def torch_tensor_def torch_tensor_ref_def)

lemma unpack_deref:
  "unpack_graph_arrays (deref_val h g)
     = (case unpack_graph_refs g of Inl e \<Rightarrow> Inl e | Inr gr \<Rightarrow> Inr (deref_graph h gr))"
  by (cases g) (simp_all add: deref_val_def unpack_graph_arrays_def unpack_graph_refs_def)

lemma unpack_wf: "wf_val h g \<Longrightarrow> unpack_graph_refs g = Inr gr \<Longrightarrow> wf_graph h gr"
  by (cases g) (simp_all add: wf_val_def unpack_graph_refs_def)

lemma tensor_getitem_sim:
  assumes wf: "wf_tensor s"
    and run: "TensorCrystDataset_getitem_st f32 index s = (r, s')"
  shows "result_value (st_heap s') r = TensorCrystDataset_getitem f32 (deref_tensor s) index \<and>
         (\<forall>x. r = Inr x \<longrightarrow> wf_sample (st_heap s') x)"
proof (cases "list_getitem (td_cached_data (st_self s)) index")
  case (Inl e)
  with run show ?thesis
    by (auto simp: TensorCrystDataset_getitem_st_def TensorCrystDataset_getitem_def bind_py_def
          pure_py_def deref_tensor_def list_getitem_map result_value_def)
next
  case (Inr d)
  with wf have wd: "wf_record (st_heap s) d"
    by (auto simp: wf_tensor_def list_all_iff dest: list_getitem_in_set)
  show ?thesis
  proof (cases "ref_getitem d ''graph_arrays''")
    case (Inl e)
    with run Inr show ?thesis
      by (auto simp: TensorCrystDataset_getitem_st_def TensorCrystDataset_getitem_def bind_py_def
            pure_py_def deref_tensor_def list_getitem_map dict_getitem_deref result_value_def)
  next
    case g: (Inr g)
    with wd have wg: "wf_val (st_heap s) g" by (rule ref_getitem_wf)
    show ?thesis
    proof (cases "unpack_graph_refs g")
      case (Inl e)
      with run Inr g show ?thesis
        by (auto simp: TensorCrystDataset_getitem_st_def TensorCrystDataset_getitem_def bind_py_def
              pure_py_def deref_tensor_def list_getitem_map dict_getitem_deref unpack_deref
              result_value_def)
    next
      case gr: (Inr gr)
      with wg have wgr: "wf_graph (st_heap s) gr" by (rule unpack_wf)
      from run Inr g gr have b: "build_sample f32 gr None s = (r, s')"
        by (simp add: TensorCrystDataset_getitem_st_def bind_py_def pure_py_def)
      from build_sample_sim [OF wgr _ b] obtain x where
        x: "r = Inr x" "wf_sample (st_heap s') x"
           "deref_sample (st_heap s') x = graph_data f32 (deref_graph (st_heap s) gr) None"
        by auto
      with Inr g gr show ?thesis
        by (auto simp: TensorCrystDataset_getitem_def deref_tensor_def list_getitem_map
              dict_getitem_deref unpack_deref result_value_def)
    qed
  qed
qed

lemma cryst_getitem_sim:
  assumes wf: "wf_cryst s"
    and run: "CrystDataset_getitem_st f32 index s = (r, s')"
  shows "result_value (st_heap s') r = CrystDataset_getitem f32 (deref_cryst s) index \<and>
         (\<forall>x. r = Inr x \<longrightarrow> wf_sample (st_heap s') x)"
proof (cases "list_getitem (cd_cached_data (st_self s)) index")
  case (Inl e)
  with run show ?thesis
    by (auto simp: CrystDataset_getitem_st_def CrystDataset_getitem_def bind_py_def
          pure_py_def deref_cryst_def list_getitem_map result_value_def)
next
  case (Inr d)
  with wf have wd: "wf_record (st_heap s) d"
    by (auto simp: wf_cryst_def list_all_iff dest: list_getitem_in_set)
  show ?thesis
  proof (cases "cd_scaler (st_self s)")
    case None
    with run Inr show ?thesis
      by (auto simp: CrystDataset_getitem_st_def CrystDataset_getitem_def bind_py_def
            pure_py_def deref_cryst_def list_getitem_map result_value_def)
  next
    case (Some tr)
    show ?thesis
    proof (cases "ref_getitem d (cd_prop (st_self s))")
      case (Inl e)
      with run Inr Some show ?thesis
        by (auto simp: CrystDataset_getitem_st_def CrystDataset_getitem_def bind_py_def
              pure_py_def deref_cryst_def list_getitem_map dict_getitem_deref result_value_def)
    next
      case v: (Inr v)
      with wd have wv: "wf_val (st_heap s) v" by (rule ref_getitem_wf)
      show ?thesis
      proof (cases "torch_tensor_ref f32 (st_heap s) v")
        case (Inl e)
        with run Inr Some v wv show ?thesis
          by (auto simp: CrystDataset_getitem_st_def CrystDataset_getitem_def bind_py_def
                pure_py_def deref_cryst_def list_getitem_map dict_getitem_deref
                torch_tensor_deref result_value_def)
      next
        case t: (Inr t)
        show ?thesis
        proof (cases "tr t")
          case (Inl e)
          with run Inr Some v wv t show ?thesis
            by (auto simp: CrystDataset_getitem_st_def CrystDataset_getitem_def bind_py_def
                  pure_py_def deref_cryst_def list_getitem_map dict_getitem_deref
                  torch_tensor_deref result_value_def)
        next
          case p: (Inr p)
          define s1 where "s1 = s\<lparr>st_heap := st_heap s @ [RealVec (t_elems p)]\<rparr>"
          have h1: "st_heap s1 = st_heap s @ [RealVec (t_elems p)]" by (simp add: s1_def)
          have nt: "new_tensor p s = (Inr (length (st_heap s)), s1)"
            by (simp add: new_tensor_def alloc_def s1_def)
          show ?thesis
          proof (cases "ref_getitem d ''graph_arrays''")
            case (Inl e)
            with run Inr Some v wv t p nt show ?thesis
              by (auto simp: CrystDataset_getitem_st_def CrystDataset_getitem_def bind_py_def
                    pure_py_def deref_cryst_def list_getitem_map dict_getitem_deref
                    torch_tensor_deref result_value_def)
          next
            case g: (Inr g)
            with wd have wg: "wf_val (st_heap s) g" by (rule ref_getitem_wf)
            show ?thesis
            proof (cases "unpack_graph_refs g")
              case (Inl e)
              with run Inr Some v wv t p nt g show ?thesis
                by (auto simp: CrystDataset_getitem_st_def CrystDataset_getitem_def bind_py_def
                      pure_py_def deref_cryst_def list_getitem_map dict_getitem_deref
                      torch_tensor_deref unpack_deref result_value_def)
            next
              case gr: (Inr gr)
              with wg have wgr: "wf_graph (st_heap s) gr" by (rule unpack_wf)
              then have wgr1: "wf_graph (st_heap s1) gr"
                by (simp add: h1 wf_graph_append)
              from wgr have dg: "deref_graph (st_heap s1) gr = deref_graph (st_heap s) gr"
                by (simp add: h1 deref_graph_append)
              have y: "case Some (length (st_heap s)) of None \<Rightarrow> True
                        | Some a \<Rightarrow> is_real_vec (st_heap s1) a"
                by (simp add: h1 read_new)
              from run Inr Some v t p nt g gr
              have b: "build_sample f32 gr (Some (length (st_heap s))) s1 = (r, s')"
                by (simp add: CrystDataset_getitem_st_def bind_py_def pure_py_def)
              from build_sample_sim [OF wgr1 y b] obtain x where
                x: "r = Inr x" "wf_sample (st_heap s') x"
                   "deref_sample (st_heap s') x
                      = graph_data f32 (deref_graph (st_heap s1) gr)
                          (Some (view_row (real_vec (st_heap s1) (length (st_heap s)))))"
                by auto
              have "real_vec (st_heap s1) (length (st_heap s)) = t_elems p"
                by (simp add: h1 read_new)
              with x dg Inr Some v wv t p g gr show ?thesis
                by (auto simp: CrystDataset_getitem_def deref_cryst_def list_getitem_map
                      dict_getitem_deref torch_tensor_deref unpack_deref result_value_def)
            qed
          qed
        qed
      qed
    qed
  qed
qed

lemma frame_cryst_step: "is_read q \<Longrightarrow> cryst_step f32 q s = (x, s') \<Longrightarrow> frame s s'"
  by (cases q) (auto simp: CrystDataset_len_st_def frame_refl split: prod.splits
                     dest: frame_cryst_getitem)

lemma frame_tensor_step: "is_read q \<Longrightarrow> tensor_step f32 q s = (x, s') \<Longrightarrow> frame s s'"
  by (cases q) (auto simp: TensorCrystDataset_len_st_def frame_refl split: prod.splits
                     dest: frame_tensor_getitem)

lemma frame_cryst_run:
  "\<forall>q\<in>set qs. is_read q \<Longrightarrow> cryst_run f32 qs s = (xs, s') \<Longrightarrow> frame s s'"
proof (induction qs arbitrary: s xs s')
  case Nil
  then show ?case by (simp add: frame_refl)
next
  case (Cons q qs)
  obtain x s1 where a: "cryst_step f32 q s = (x, s1)" by (cases "cryst_step f32 q s")
  obtain ys s2 where b: "cryst_run f32 qs s1 = (ys, s2)" by (cases "cryst_run f32 qs s1")
  from Cons.prems a b have e: "s' = s2" by simp
  from Cons.prems frame_cryst_step [OF _ a] have "frame s s1" by simp
  moreover from Cons.IH [OF _ b] Cons.prems have "frame s1 s2" by simp
  ultimately show ?case using e by (auto intro: frame_trans)
qed

lemma frame_tensor_run:
  "\<forall>q\<in>set qs. is_read q \<Longrightarrow> tensor_run f32 qs s = (xs, s') \<Longrightarrow> frame s s'"
proof (induction qs arbitrary: s xs s')
  case Nil
  then show ?case by (simp add: frame_refl)
next
  case (Cons q qs)
  obtain x s1 where a: "tensor_step f32 q s = (x, s1)" by (cases "tensor_step f32 q s")
  obtain ys s2 where b: "tensor_run f32 qs s1 = (ys, s2)" by (cases "tensor_run f32 qs s1")
  from Cons.prems a b have e: "s' = s2" by simp
  from Cons.prems frame_tensor_step [OF _ a] have "frame s s1" by simp
  moreover from Cons.IH [OF _ b] Cons.prems have "frame s1 s2" by simp
  ultimately show ?case using e by (auto intro: frame_trans)
qed

lemma len_cryst_step:
  "cryst_step f32 q s = (x, s') \<Longrightarrow>
     length (cd_cached_data (st_self s')) = length (cd_cached_data (st_self s))"
  by (cases q) (auto simp: CrystDataset_len_st_def frame_def split: prod.splits
                     dest!: frame_cryst_getitem)

lemma len_tensor_step:
  "tensor_step f32 q s = (x, s') \<Longrightarrow>
     length (td_cached_data (st_self s')) = length (td_cached_data (st_self s))"
  by (cases q) (auto simp: TensorCrystDataset_len_st_def frame_def split: prod.splits
                     dest!: frame_tensor_getitem)

lemma len_cryst_run:
  "cryst_run f32 qs s = (xs, s') \<Longrightarrow>
     length (cd_cached_data (st_self s')) = length (cd_cached_data (st_self s))"
proof (induction qs arbitrary: s xs s')
  case Nil
  then show ?case by simp
next
  case (Cons q qs)
  obtain x s1 where a: "cryst_step f32 q s = (x, s1)" by (cases "cryst_step f32 q s")
  obtain ys s2 where b: "cryst_run f32 qs s1 = (ys, s2)" by (cases "cryst_run f32 qs s1")
  from Cons.prems a b have e: "s' = s2" by simp
  from len_cryst_step [OF a] Cons.IH [OF b] e show ?case by simp
qed

lemma len_tensor_run:
  "tensor_run f32 qs s = (xs, s') \<Longrightarrow>
     length (td_cached_data (st_self s')) = length (td_cached_data (st_self s))"
proof (induction qs arbitrary: s xs s')
  case Nil
  then show ?case by simp
next
  case (Cons q qs)
  obtain x s1 where a: "tensor_step f32 q s = (x, s1)" by (cases "tensor_step f32 q s")
  obtain ys s2 where b: "tensor_run f32 qs s1 = (ys, s2)" by (cases "tensor_run f32 qs s1")
  from Cons.prems a b have e: "s' = s2" by simp
  from len_tensor_step [OF a] Cons.IH [OF b] e show ?case by simp
qed

lemma frame_result_value:
  assumes "frame s s'" and "\<forall>x. r = Inr x \<longrightarrow> wf_sample (st_heap s) x"
  shows "result_value (st_heap s') r = result_value (st_heap s) r"
  using assms by (cases r) (simp_all add: result_value_def frame_deref_sample)

lemma cryst_getitem_twice:
  assumes wf: "wf_cryst s"
    and a: "CrystDataset_getitem_st f32 i s = (r1, s1)"
    and b: "CrystDataset_getitem_st f32 i s1 = (r2, s2)"
  shows "result_value (st_heap s2) r2 = result_value (st_heap s2) r1"
proof -
  note f1 = frame_cryst_getitem [OF a] and f2 = frame_cryst_getitem [OF b]
  from cryst_getitem_sim [OF wf a]
  have v1: "result_value (st_heap s1) r1 = CrystDataset_getitem f32 (deref_cryst s) i"
    and w1: "\<forall>x. r1 = Inr x \<longrightarrow> wf_sample (st_heap s1) x" by simp_all
  from f1 wf have wf1: "wf_cryst s1" and d1: "deref_cryst s1 = deref_cryst s"
    by (simp_all add: frame_wf_cryst frame_deref_cryst)
  from cryst_getitem_sim [OF wf1 b] d1
  have v2: "result_value (st_heap s2) r2 = CrystDataset_getitem f32 (deref_cryst s) i" by simp
  from frame_result_value [OF f2 w1] v1 v2 show ?thesis by simp
qed

lemma tensor_getitem_twice:
  assumes wf: "wf_tensor s"
    and a: "TensorCrystDataset_getitem_st f32 i s = (r1, s1)"
    and b: "TensorCrystDataset_getitem_st f32 i s1 = (r2, s2)"
  shows "result_value (st_heap s2) r2 = result_value (st_heap s2) r1"
proof -
  note f1 = frame_tensor_getitem [OF a] and f2 = frame_tensor_getitem [OF b]
  from tensor_getitem_sim [OF wf a]
  have v1: "result_value (st_heap s1) r1 = TensorCrystDataset_getitem f32 (deref_tensor s) i"
    and w1: "\<forall>x. r1 = Inr x \<longrightarrow> wf_sample (st_heap s1) x" by simp_all
  from f1 wf have wf1: "wf_tensor s1" and d1: "deref_tensor s1 = deref_tensor s"
    by (simp_all add: frame_wf_tensor frame_deref_tensor)
  from tensor_getitem_sim [OF wf1 b] d1
  have v2: "result_value (st_heap s2) r2 = TensorCrystDataset_getitem f32 (deref_tensor s) i" by simp
  from frame_result_value [OF f2 w1] v1 v2 show ?thesis by simp
qed

lemma wf_cstate0: "wf_cryst cstate0"
  by (simp add: wf_cryst_def cstate0_def srec0_def wf_record_def wf_val_def wf_graph_def
        heap0_def is_int_vec_def is_int_mat_def is_real_vec_def is_real_mat_def)

lemma getitem_cstate0:
  "CrystDataset_getitem_st id 0 cstate0
     = (Inr sample0, cstate0\<lparr>st_heap := heap0 @ new_buffers0\<rparr>)"
  by (simp add: CrystDataset_getitem_st_def bind_py_def pure_py_def list_getitem_def
        cstate0_def srec0_def ref_getitem_def torch_tensor_ref_def scaler0_def new_tensor_def
        alloc_def unpack_graph_refs_def build_sample_def copy_real_mat_def copy_real_vec_def
        share_int_vec_def share_int_mat_def transposed_contiguous_def heap0_def
        is_int_vec_def is_int_mat_def is_real_vec_def is_real_mat_def
        int_vec_def int_mat_def real_vec_def real_mat_def map_array2_def array_T_def
        sample0_def new_buffers0_def upt_rec)

text \<open>The constructors, case by case.\<close>

lemma fst_cryst_finish:
  "fst (cryst_finish env a recs w)
     = (case add_scaled_lattice_prop env recs (a_lattice_scale_method a) of
          Inl e \<Rightarrow> Inl e
        | Inr recs' \<Rightarrow> Inr (CrystDataset_object a recs'))"
  by (simp add: cryst_finish_def Let_def split: sum.splits)

lemma init_compute_cases:
  assumes "compute_path a w"
  shows "CrystDataset_init env a w =
     (case preprocess env (a_path a) (a_preprocess_workers a) (a_niggli a)
                (a_primitive a) (a_graph_method a) [a_prop a] of
        Inl e \<Rightarrow>
          (Inl e, w\<lparr>trace := trace w @
             [Call_preprocess (a_path a) (a_preprocess_workers a) (a_niggli a)
                (a_primitive a) (a_graph_method a) [a_prop a]]\<rparr>)
      | Inr raw \<Rightarrow>
          (case fs_open_wb (fs w) (a_save_path a) of
             Some e \<Rightarrow>
               (Inl e, w\<lparr>trace := trace w @
                 [Call_preprocess (a_path a) (a_preprocess_workers a) (a_niggli a)
                    (a_primitive a) (a_graph_method a) [a_prop a],
                  Print (''Dump into '' @ a_save_path a @ '' ...''),
                  Pickle_dump (a_save_path a) raw]\<rparr>)
           | None \<Rightarrow>
               (fst (cryst_finish env a raw w),
                \<lparr>fs = (fs w)\<lparr>fs_exists := (fs_exists (fs w))(a_save_path a := True),
                              fs_open_rb := (fs_open_rb (fs w))(a_save_path a := Inr (Pickled raw))\<rparr>,
                 trace = trace w @
                 [Call_preprocess (a_path a) (a_preprocess_workers a) (a_niggli a)
                    (a_primitive a) (a_graph_method a) [a_prop a],
                  Print (''Dump into '' @ a_save_path a @ '' ...''),
                  Pickle_dump (a_save_path a) raw,
                  Call_add_scaled_lattice_prop raw (a_lattice_scale_method a)]\<rparr>)))"
  using assms
  by (auto simp: CrystDataset_init_def compute_path_def pickle_dump_def log_event_def
        cryst_finish_def Let_def split: sum.splits option.splits)

lemma init_load_cases:
  assumes "\<not> compute_path a w"
  shows "CrystDataset_init env a w =
     (case fs_open_rb (fs w) (a_save_path a) of
        Inr (Pickled stored) \<Rightarrow>
          (fst (cryst_finish env a stored w),
           w\<lparr>trace := trace w @
             [Print (''Load from '' @ a_save_path a @ '' ...''),
              Pickle_load (a_save_path a),
              Call_add_scaled_lattice_prop stored (a_lattice_scale_method a)]\<rparr>)
      | Inr Corrupt \<Rightarrow>
          (Inl UnpicklingError, w\<lparr>trace := trace w @
             [Print (''Load from '' @ a_save_path a @ '' ...''), Pickle_load (a_save_path a)]\<rparr>)
      | Inl e \<Rightarrow>
          (Inl e, w\<lparr>trace := trace w @
             [Print (''Load from '' @ a_save_path a @ '' ...''), Pickle_load (a_save_path a)]\<rparr>))"
  using assms
  by (auto simp: CrystDataset_init_def compute_path_def pickle_load_def log_event_def
        cryst_finish_def Let_def split: sum.splits blob.splits)

lemma tensor_init_cases:
  "TensorCrystDataset_init env a w =
     (case preprocess_tensors env (ta_crystal_array_list a) (ta_niggli a) (ta_primitive a)
             (ta_graph_method a) of
        Inl e \<Rightarrow>
          (Inl e, w\<lparr>trace := trace w @
             [Call_preprocess_tensors (ta_niggli a) (ta_primitive a) (ta_graph_method a)]\<rparr>)
      | Inr recs \<Rightarrow>
          (case add_scaled_lattice_prop env recs (ta_lattice_scale_method a) of
             Inl e \<Rightarrow> Inl e
           | Inr recs' \<Rightarrow> Inr (TensorCrystDataset_object a recs'),
           w\<lparr>trace := trace w @
             [Call_preprocess_tensors (ta_niggli a) (ta_primitive a) (ta_graph_method a),
              Call_add_scaled_lattice_prop recs (ta_lattice_scale_method a)]\<rparr>))"
  by (simp add: TensorCrystDataset_init_def log_event_def Let_def split: sum.splits)

lemma tensor_getitem_no_target:
  "TensorCrystDataset_getitem f32 td index = Inr g \<Longrightarrow> d_y g = None"
  by (auto simp: TensorCrystDataset_getitem_def graph_data_def split: sum.splits)

lemma object_scalers:
  "cd_scaler (CrystDataset_object a recs) = None"
  "cd_lattice_scaler (CrystDataset_object a recs) = None"
  "cd_cached_data (CrystDataset_object a recs) = recs"
  "td_scaler (TensorCrystDataset_object ta recs) = None"
  "td_lattice_scaler (TensorCrystDataset_object ta recs) = None"
  "td_cached_data (TensorCrystDataset_object ta recs) = recs"
  by (simp_all add: CrystDataset_object_def TensorCrystDataset_object_def)

text \<open>The sample collaborators and worlds.\<close>

lemma env0_preprocess:
  "preprocess env0 (a_path args0) (a_preprocess_workers args0) (a_niggli args0)
     (a_primitive args0) (a_graph_method args0) [a_prop args0] = Inr [raw0]"
  by (simp add: env0_def)

lemma env0_augment:
  "add_scaled_lattice_prop env0 [raw0] (a_lattice_scale_method args0) = Inr [rec0]"
  by (simp add: env0_def raw0_def rec0_def)

lemma object_args0: "CrystDataset_object args0 [rec0] = ds0"
  by (simp add: CrystDataset_object_def args0_def ds0_def)

lemma env0_result:
  "(case add_scaled_lattice_prop env0 [raw0] (a_lattice_scale_method args0) of
      Inl e \<Rightarrow> Inl e
    | Inr recs' \<Rightarrow> Inr (CrystDataset_object args0 recs')) = Inr ds0"
  by (simp add: env0_augment object_args0)

lemma world0_compute: "a_force_process args0 \<or> \<not> path_exists world0 (a_save_path args0)"
  by (simp add: args0_def world0_def path_exists_def)

lemma world0_writable: "fs_open_wb (fs world0) (a_save_path args0) = None"
  by (simp add: args0_def world0_def)

lemma world1_load: "\<not> a_force_process args0 \<and> path_exists world1 (a_save_path args0)"
  by (simp add: args0_def world1_def path_exists_def)

lemma world1_stored: "fs_open_rb (fs world1) (a_save_path args0) = Inr (Pickled [raw0])"
  by (simp add: args0_def world1_def)



lemma env0_preprocess_tensors:
  "preprocess_tensors env0 (ta_crystal_array_list targs0) (ta_niggli targs0)
     (ta_primitive targs0) (ta_graph_method targs0)
     = Inr [[(''graph_arrays'', PyGraphArrays ga0)], [(''graph_arrays'', PyGraphArrays ga0)]]"
  by (simp add: env0_def targs0_def)

lemma env0_tensor_result:
  "(case add_scaled_lattice_prop env0
           [[(''graph_arrays'', PyGraphArrays ga0)], [(''graph_arrays'', PyGraphArrays ga0)]]
           (ta_lattice_scale_method targs0) of
      Inl e \<Rightarrow> Inl e
    | Inr recs' \<Rightarrow> Inr (TensorCrystDataset_object targs0 recs')) = Inr td2"
  by (simp add: env0_def TensorCrystDataset_object_def targs0_def td2_def)

text \<open>The summary.\<close>

lemma array_T_sample:
  "array_T (Array2 3 2 [0, 1, 1, 0, 1, 1 :: int]) = Array2 2 3 [0, 1, 1, 1, 0, 1]"
  by (simp add: array_T_def upt_rec)

lemma repr_char_plain: "plain_char c \<Longrightarrow> repr_char (CHR 0x27) c = [c]"
  by (auto simp: plain_char_def repr_char_def is_printable_def)

lemma concat_repr_plain: "list_all plain_char s \<Longrightarrow> concat (map (repr_char (CHR 0x27)) s) = s"
  by (induction s) (simp_all add: repr_char_plain)

lemma repr_str_plain: "plain_str s \<Longrightarrow> repr_str s = [CHR 0x27] @ s @ [CHR 0x27]"
proof -
  assume p: "plain_str s"
  then have "CHR 0x27 \<notin> set s"
    by (auto simp: plain_str_def list_all_iff plain_char_def)
  with p show ?thesis
    by (simp add: repr_str_def plain_str_def concat_repr_plain Let_def)
qed

lemma sublist_quoted: "sublist s (a @ ([q] @ s @ [q']) @ b)"
proof -
  have "a @ ([q] @ s @ [q']) @ b = (a @ [q]) @ s @ ([q'] @ b)" by simp
  then show ?thesis by (simp only: sublist_appendI)
qed

text \<open>The integer tensors of a sample are the buffers of the cached record.\<close>

lemma sample_shares_cache_buffers:
  "build_sample f32 gr target s = (Inr x, s') \<Longrightarrow>
     s_atom_types x = gr_atom_types gr \<and> s_to_jimages x = gr_to_jimages gr"
  by (auto simp: build_sample_def bind_py_def copy_real_mat_def copy_real_vec_def
        share_int_vec_def share_int_mat_def transposed_contiguous_def alloc_def
        split: if_splits)

section \<open>Indexed access without a scaler (C1)\<close>

text \<open>
  C1, as stated, asks that indexing a labelled dataset whose scaler is still \<open>None\<close> fails
  with a designated not-configured error rather than an attribute error. On the
  one-record dataset \<open>ds0\<close> the access at index 0 fails with the attribute error of
  \<^verbatim>\<open>None.transform\<close>.
\<close>

theorem getitem_without_scaler_counterexample:
  "cd_scaler ds0 = None \<and> CrystDataset_getitem id ds0 0 = Inl AttributeError"
  by (simp add: CrystDataset_getitem_def ds0_def list_getitem_def)

text \<open>
  C1, amended: with no scaler attached, every indexed access fails and no target is
  computed; the failure is the attribute error when the index is one the list accepts
  and the index error otherwise.
\<close>

theorem getitem_without_scaler:
  "cd_scaler ds = None \<Longrightarrow>
   CrystDataset_getitem f32 ds index =
     (if in_range (cd_cached_data ds) index then Inl AttributeError else Inl IndexError)"
  by (simp add: CrystDataset_getitem_def list_getitem_cases)

theorem getitem_without_scaler_witness:
  "cd_scaler ds0 = None \<and>
   CrystDataset_getitem (\<lambda>x. x) ds0 (-1) = Inl AttributeError \<and>
   CrystDataset_getitem (\<lambda>x. x) ds0 1 = Inl IndexError"
  using getitem_without_scaler [of ds0 "\<lambda>x. x" "-1"] getitem_without_scaler [of ds0 "\<lambda>x. x" 1]
  by (simp add: ds0_def in_range_def)

section \<open>Index range (C3)\<close>

text \<open>
  C3, as stated, asks that every negative index is rejected. On the one-record label-free
  dataset \<open>td0\<close> the index \<open>-1\<close> is accepted and returns the sample of index 0.
\<close>

theorem negative_index_counterexample:
  "(-1 :: int) < 0 \<and>
   TensorCrystDataset_getitem id td0 (-1) = Inr (graph_data id ga0 None) \<and>
   TensorCrystDataset_getitem id td0 (-1) = TensorCrystDataset_getitem id td0 0 \<and>
   CrystDataset_getitem id (ds0\<lparr>cd_scaler := Some scaler0\<rparr>) (-1)
     = Inr (graph_data id ga0 (Some (Array2 1 1 [1])))"
  by (simp add: TensorCrystDataset_getitem_def CrystDataset_getitem_def td0_def ds0_def
        list_getitem_def rec0_def dict_getitem_def unpack_graph_arrays_def torch_tensor_def
        scaler0_def view_row_def)

text \<open>
  C3, amended: for both classes an index below \<open>-length\<close> or at least \<open>length\<close> fails with
  the index error, and an index in \<open>-length \<le> index < 0\<close> behaves as \<open>length + index\<close>.
\<close>

theorem getitem_index_range:
  "(index < - int (length (cd_cached_data ds)) \<or> int (length (cd_cached_data ds)) \<le> index
      \<longrightarrow> CrystDataset_getitem f32 ds index = Inl IndexError) \<and>
   (- int (length (cd_cached_data ds)) \<le> index \<and> index < 0
      \<longrightarrow> CrystDataset_getitem f32 ds index
          = CrystDataset_getitem f32 ds (int (length (cd_cached_data ds)) + index)) \<and>
   (index < - int (length (td_cached_data td)) \<or> int (length (td_cached_data td)) \<le> index
      \<longrightarrow> TensorCrystDataset_getitem f32 td index = Inl IndexError) \<and>
   (- int (length (td_cached_data td)) \<le> index \<and> index < 0
      \<longrightarrow> TensorCrystDataset_getitem f32 td index
          = TensorCrystDataset_getitem f32 td (int (length (td_cached_data td)) + index))"
  by (simp add: CrystDataset_getitem_def TensorCrystDataset_getitem_def list_getitem_def)

theorem getitem_index_range_witness:
  "CrystDataset_getitem (\<lambda>x. x) (ds0\<lparr>cd_scaler := Some scaler0\<rparr>) 1 = Inl IndexError \<and>
   CrystDataset_getitem (\<lambda>x. x) (ds0\<lparr>cd_scaler := Some scaler0\<rparr>) (-2) = Inl IndexError \<and>
   CrystDataset_getitem (\<lambda>x. x) (ds0\<lparr>cd_scaler := Some scaler0\<rparr>) (-1)
     = CrystDataset_getitem (\<lambda>x. x) (ds0\<lparr>cd_scaler := Some scaler0\<rparr>) 0 \<and>
   TensorCrystDataset_getitem (\<lambda>x. x) td0 1 = Inl IndexError \<and>
   TensorCrystDataset_getitem (\<lambda>x. x) td0 (-2) = Inl IndexError \<and>
   TensorCrystDataset_getitem (\<lambda>x. x) td0 (-1) = TensorCrystDataset_getitem (\<lambda>x. x) td0 0"
  using getitem_index_range [of 1 "ds0\<lparr>cd_scaler := Some scaler0\<rparr>" "\<lambda>x. x" td0]
        getitem_index_range [of "-2" "ds0\<lparr>cd_scaler := Some scaler0\<rparr>" "\<lambda>x. x" td0]
        getitem_index_range [of "-1" "ds0\<lparr>cd_scaler := Some scaler0\<rparr>" "\<lambda>x. x" td0]
  by (simp add: ds0_def td0_def)

section \<open>The edge index (C4)\<close>

text \<open>
  C4: for an index the list accepts and a record holding graph arrays \<open>ga\<close>, the
  \<^verbatim>\<open>edge_index\<close> of the sample is the transpose of the stored edge list: its shape is
  swapped and its entry \<open>(j, i)\<close> is the stored entry \<open>(i, j)\<close>, with nothing added. The
  labelled access returns such a sample whenever a scaler is attached and the property
  converts and transforms without error, the label-free access always; and any sample
  the labelled access returns has that edge index.
\<close>

theorem edge_index_is_transpose:
  assumes "list_getitem recs index = Inr rec"
    and "dict_getitem rec ''graph_arrays'' = Inr (PyGraphArrays ga)"
  shows "(cd_cached_data ds = recs \<and> CrystDataset_getitem f32 ds index = Inr g \<longrightarrow>
            is_transpose_of (d_edge_index g) (ga_edge_indices ga) \<and> wf_array2 (d_edge_index g)) \<and>
         (cd_cached_data ds = recs \<and> cd_scaler ds = Some tr \<and>
          dict_getitem rec (cd_prop ds) = Inr v \<and> torch_tensor f32 v = Inr t \<and> tr t = Inr p \<longrightarrow>
            (\<exists>g'. CrystDataset_getitem f32 ds index = Inr g' \<and>
                  d_edge_index g' = array_T (ga_edge_indices ga) \<and>
                  is_transpose_of (d_edge_index g') (ga_edge_indices ga) \<and>
                  wf_array2 (d_edge_index g'))) \<and>
         (td_cached_data td = recs \<longrightarrow>
            (\<exists>g'. TensorCrystDataset_getitem f32 td index = Inr g' \<and>
                  d_edge_index g' = array_T (ga_edge_indices ga) \<and>
                  is_transpose_of (d_edge_index g') (ga_edge_indices ga) \<and>
                  wf_array2 (d_edge_index g')))"
proof (intro conjI impI)
  assume h: "cd_cached_data ds = recs \<and> CrystDataset_getitem f32 ds index = Inr g"
  with assms obtain target where "g = graph_data f32 ga (Some target)"
    using getitem_cryst_result [of ds index rec ga f32 g] by auto
  then have e: "d_edge_index g = array_T (ga_edge_indices ga)"
    by (simp add: graph_data_def)
  show "is_transpose_of (d_edge_index g) (ga_edge_indices ga)"
    by (simp add: e array_T_is_transpose)
  show "wf_array2 (d_edge_index g)"
    by (simp add: e array_T_wf)
next
  assume h: "cd_cached_data ds = recs \<and> cd_scaler ds = Some tr \<and>
          dict_getitem rec (cd_prop ds) = Inr v \<and> torch_tensor f32 v = Inr t \<and> tr t = Inr p"
  with assms
  have "CrystDataset_getitem f32 ds index = Inr (graph_data f32 ga (Some (view_row (t_elems p))))"
    using getitem_cryst_success [of ds index rec ga tr v f32 t p] by simp
  moreover have "d_edge_index (graph_data f32 ga (Some (view_row (t_elems p))))
      = array_T (ga_edge_indices ga)"
    by (simp add: graph_data_def)
  ultimately show "\<exists>g'. CrystDataset_getitem f32 ds index = Inr g' \<and>
                  d_edge_index g' = array_T (ga_edge_indices ga) \<and>
                  is_transpose_of (d_edge_index g') (ga_edge_indices ga) \<and>
                  wf_array2 (d_edge_index g')"
    by (simp add: array_T_is_transpose array_T_wf)
next
  assume h: "td_cached_data td = recs"
  with assms have "TensorCrystDataset_getitem f32 td index = Inr (graph_data f32 ga None)"
    using getitem_tensor_result [of td index rec ga f32] by simp
  moreover have "d_edge_index (graph_data f32 ga None) = array_T (ga_edge_indices ga)"
    by (simp add: graph_data_def)
  ultimately show "\<exists>g'. TensorCrystDataset_getitem f32 td index = Inr g' \<and>
                  d_edge_index g' = array_T (ga_edge_indices ga) \<and>
                  is_transpose_of (d_edge_index g') (ga_edge_indices ga) \<and>
                  wf_array2 (d_edge_index g')"
    by (simp add: array_T_is_transpose array_T_wf)
qed

theorem edge_index_is_transpose_witness:
  "(\<exists>g'. CrystDataset_getitem (\<lambda>x. x) (ds0\<lparr>cd_scaler := Some scaler0\<rparr>) 0 = Inr g' \<and>
         d_edge_index g' = Array2 2 3 [0, 1, 1, 1, 0, 1] \<and>
         is_transpose_of (d_edge_index g') (ga_edge_indices ga0)) \<and>
   (\<exists>g'. TensorCrystDataset_getitem (\<lambda>x. x) td0 0 = Inr g' \<and>
         d_edge_index g' = Array2 2 3 [0, 1, 1, 1, 0, 1] \<and>
         is_transpose_of (d_edge_index g') (ga_edge_indices ga0)) \<and>
   ga_edge_indices ga0 = Array2 3 2 [0, 1, 1, 0, 1, 1]"
proof -
  have a: "list_getitem [rec0] 0 = Inr rec0"
    by (simp add: list_getitem_def)
  have b: "dict_getitem rec0 ''graph_arrays'' = Inr (PyGraphArrays ga0)"
    by (simp add: dict_getitem_def rec0_def)
  have c: "cd_cached_data (ds0\<lparr>cd_scaler := Some scaler0\<rparr>) = [rec0] \<and>
           cd_scaler (ds0\<lparr>cd_scaler := Some scaler0\<rparr>) = Some scaler0 \<and>
           dict_getitem rec0 (cd_prop (ds0\<lparr>cd_scaler := Some scaler0\<rparr>)) = Inr (NpFloat 3) \<and>
           torch_tensor (\<lambda>x. x) (NpFloat 3) = Inr (Tensor [] [3]) \<and>
           scaler0 (Tensor [] [3]) = Inr (Tensor [] [1])"
    by (simp add: ds0_def dict_getitem_def rec0_def torch_tensor_def scaler0_def)
  have d: "td_cached_data td0 = [rec0]"
    by (simp add: td0_def)
  have e: "ga_edge_indices ga0 = Array2 3 2 [0, 1, 1, 0, 1, 1]"
    by (simp add: ga0_def)
  note t = edge_index_is_transpose [OF a b, where ds = "ds0\<lparr>cd_scaler := Some scaler0\<rparr>"
      and ?f32.0 = "\<lambda>x. x" and tr = scaler0 and v = "NpFloat 3" and t = "Tensor [] [3]"
      and p = "Tensor [] [1]" and td = td0]
  from t c have "\<exists>g'. CrystDataset_getitem (\<lambda>x. x) (ds0\<lparr>cd_scaler := Some scaler0\<rparr>) 0 = Inr g' \<and>
         d_edge_index g' = array_T (ga_edge_indices ga0) \<and>
         is_transpose_of (d_edge_index g') (ga_edge_indices ga0)"
    by blast
  moreover from t d have "\<exists>g'. TensorCrystDataset_getitem (\<lambda>x. x) td0 0 = Inr g' \<and>
         d_edge_index g' = array_T (ga_edge_indices ga0) \<and>
         is_transpose_of (d_edge_index g') (ga_edge_indices ga0)"
    by blast
  ultimately show ?thesis using e by (simp add: array_T_sample)
qed

section \<open>Atom and bond counts (C5)\<close>

text \<open>
  C5: when the record satisfies the invariant, the sample returned by the labelled access
  has an atom count equal to the row count of its coordinate array (and to the length of
  its atom types) and a bond count equal to the row count of the stored edge list, which
  is the column count of the transposed edge index. The access does return a sample when
  a scaler is attached and the property converts and transforms without error.
\<close>

theorem sample_counts:
  assumes "list_getitem recs index = Inr rec"
    and "dict_getitem rec ''graph_arrays'' = Inr (PyGraphArrays ga)"
    and "record_invariant ga"
  shows "(cd_cached_data ds = recs \<and> CrystDataset_getitem f32 ds index = Inr g \<longrightarrow>
            d_num_atoms g = int (nrows (d_frac_coords g)) \<and>
            int (length (d_atom_types g)) = d_num_atoms g \<and>
            d_num_bonds g = nrows (ga_edge_indices ga) \<and>
            d_num_bonds g = ncols (d_edge_index g)) \<and>
         (cd_cached_data ds = recs \<and> cd_scaler ds = Some tr \<and>
          dict_getitem rec (cd_prop ds) = Inr v \<and> torch_tensor f32 v = Inr t \<and> tr t = Inr p \<longrightarrow>
            (\<exists>g'. CrystDataset_getitem f32 ds index = Inr g'))"
proof (intro conjI impI)
  assume h: "cd_cached_data ds = recs \<and> CrystDataset_getitem f32 ds index = Inr g"
  with assms obtain target where g: "g = graph_data f32 ga (Some target)"
    using getitem_cryst_result [of ds index rec ga f32 g] by auto
  from assms(3) show "d_num_atoms g = int (nrows (d_frac_coords g))"
    by (simp add: g graph_data_def record_invariant_def map_array2_def)
  from assms(3) show "int (length (d_atom_types g)) = d_num_atoms g"
    by (simp add: g graph_data_def record_invariant_def)
  show "d_num_bonds g = nrows (ga_edge_indices ga)"
    by (simp add: g graph_data_def)
  show "d_num_bonds g = ncols (d_edge_index g)"
    by (simp add: g graph_data_def array_T_def)
next
  assume h: "cd_cached_data ds = recs \<and> cd_scaler ds = Some tr \<and>
          dict_getitem rec (cd_prop ds) = Inr v \<and> torch_tensor f32 v = Inr t \<and> tr t = Inr p"
  with assms show "\<exists>g'. CrystDataset_getitem f32 ds index = Inr g'"
    using getitem_cryst_success [of ds index rec ga tr v f32 t p] by simp
qed

theorem sample_counts_witness:
  "record_invariant ga0 \<and>
   d_num_atoms (graph_data (\<lambda>x. x) ga0 (Some (Array2 1 1 [1]))) = 2 \<and>
   nrows (d_frac_coords (graph_data (\<lambda>x. x) ga0 (Some (Array2 1 1 [1])))) = 2 \<and>
   d_num_bonds (graph_data (\<lambda>x. x) ga0 (Some (Array2 1 1 [1]))) = 3 \<and>
   (\<exists>g'. CrystDataset_getitem (\<lambda>x. x) (ds0\<lparr>cd_scaler := Some scaler0\<rparr>) 0 = Inr g')"
proof -
  have a: "list_getitem [rec0] 0 = Inr rec0"
    by (simp add: list_getitem_def)
  have b: "dict_getitem rec0 ''graph_arrays'' = Inr (PyGraphArrays ga0)"
    by (simp add: dict_getitem_def rec0_def)
  have c: "record_invariant ga0"
    by (simp add: record_invariant_def ga0_def)
  have d: "cd_cached_data (ds0\<lparr>cd_scaler := Some scaler0\<rparr>) = [rec0]"
    by (simp add: ds0_def)
  have e: "cd_scaler (ds0\<lparr>cd_scaler := Some scaler0\<rparr>) = Some scaler0"
    by simp
  have f: "dict_getitem rec0 (cd_prop (ds0\<lparr>cd_scaler := Some scaler0\<rparr>)) = Inr (NpFloat 3)"
    by (simp add: dict_getitem_def rec0_def ds0_def)
  have g: "torch_tensor (\<lambda>x. x) (NpFloat 3) = Inr (Tensor [] [3])"
    by (simp add: torch_tensor_def)
  have h: "scaler0 (Tensor [] [3]) = Inr (Tensor [] [1])"
    by (simp add: scaler0_def)
  have i: "nrows (ga_edge_indices ga0) = 3" "nrows (ga_frac_coords ga0) = 2"
    by (simp_all add: ga0_def)
  from sample_counts [OF a b c, of "ds0\<lparr>cd_scaler := Some scaler0\<rparr>" "\<lambda>x. x"
         "graph_data (\<lambda>x. x) ga0 (Some (Array2 1 1 [1]))" scaler0 "NpFloat 3"
         "Tensor [] [3]" "Tensor [] [1]"]
  show ?thesis
    using c d e f g h i ds0_getitem by (auto simp: graph_data_def map_array2_def)
qed

section \<open>Reads leave the state unchanged (C10)\<close>

text \<open>
  C10, on the model with arrays by reference: a session of \<open>Len\<close> and \<open>At\<close> requests leaves
  the dataset object as it was and only adds buffers to the heap, so every array that
  existed holds what it held, the records of a well-formed state read the same, and the
  length is the same; the length is the same after any session at all, attachments
  included. Two successive accesses at \<open>i\<close> in a well-formed state return the same error
  or samples of equal contents, which are those the model by value computes, although
  the second sample has buffers of its own where the source copies.
\<close>

theorem reads_leave_state_unchanged:
  assumes "\<forall>q\<in>set qs. is_read q"
  shows "(cryst_run f32 qs cs = (xs, cs') \<longrightarrow>
            st_self cs' = st_self cs \<and> prefix (st_heap cs) (st_heap cs') \<and>
            fst (CrystDataset_len_st cs') = fst (CrystDataset_len_st cs) \<and>
            (wf_cryst cs \<longrightarrow> wf_cryst cs' \<and> deref_cryst cs' = deref_cryst cs)) \<and>
         (tensor_run f32 qs ts = (ys, ts') \<longrightarrow>
            st_self ts' = st_self ts \<and> prefix (st_heap ts) (st_heap ts') \<and>
            fst (TensorCrystDataset_len_st ts') = fst (TensorCrystDataset_len_st ts) \<and>
            (wf_tensor ts \<longrightarrow> wf_tensor ts' \<and> deref_tensor ts' = deref_tensor ts)) \<and>
         (wf_cryst cs \<and> CrystDataset_getitem_st f32 i cs = (r1, cs1) \<and>
          CrystDataset_getitem_st f32 i cs1 = (r2, cs2) \<longrightarrow>
            st_self cs2 = st_self cs \<and> prefix (st_heap cs) (st_heap cs2) \<and>
            result_value (st_heap cs1) r1 = CrystDataset_getitem f32 (deref_cryst cs) i \<and>
            result_value (st_heap cs2) r2 = result_value (st_heap cs2) r1 \<and>
            result_value (st_heap cs2) r1 = result_value (st_heap cs1) r1) \<and>
         (wf_tensor ts \<and> TensorCrystDataset_getitem_st f32 i ts = (t1, ts1) \<and>
          TensorCrystDataset_getitem_st f32 i ts1 = (t2, ts2) \<longrightarrow>
            st_self ts2 = st_self ts \<and> prefix (st_heap ts) (st_heap ts2) \<and>
            result_value (st_heap ts1) t1 = TensorCrystDataset_getitem f32 (deref_tensor ts) i \<and>
            result_value (st_heap ts2) t2 = result_value (st_heap ts2) t1 \<and>
            result_value (st_heap ts2) t1 = result_value (st_heap ts1) t1) \<and>
         (cryst_run f32 ps cs = (zs, cs3) \<longrightarrow>
            fst (CrystDataset_len_st cs3) = fst (CrystDataset_len_st cs)) \<and>
         (tensor_run f32 ps ts = (ws, ts3) \<longrightarrow>
            fst (TensorCrystDataset_len_st ts3) = fst (TensorCrystDataset_len_st ts))"
proof (intro conjI impI)
  assume r: "cryst_run f32 qs cs = (xs, cs')"
  from frame_cryst_run [OF assms r] have f: "frame cs cs'" .
  from f show "st_self cs' = st_self cs" by (simp add: frame_def)
  from f show "prefix (st_heap cs) (st_heap cs')" by (simp add: frame_def)
  from f show "fst (CrystDataset_len_st cs') = fst (CrystDataset_len_st cs)"
    by (simp add: frame_def CrystDataset_len_st_def)
  assume "wf_cryst cs"
  with f show "wf_cryst cs'" by (rule frame_wf_cryst)
  from f \<open>wf_cryst cs\<close> show "deref_cryst cs' = deref_cryst cs" by (rule frame_deref_cryst)
next
  assume r: "tensor_run f32 qs ts = (ys, ts')"
  from frame_tensor_run [OF assms r] have f: "frame ts ts'" .
  from f show "st_self ts' = st_self ts" by (simp add: frame_def)
  from f show "prefix (st_heap ts) (st_heap ts')" by (simp add: frame_def)
  from f show "fst (TensorCrystDataset_len_st ts') = fst (TensorCrystDataset_len_st ts)"
    by (simp add: frame_def TensorCrystDataset_len_st_def)
  assume "wf_tensor ts"
  with f show "wf_tensor ts'" by (rule frame_wf_tensor)
  from f \<open>wf_tensor ts\<close> show "deref_tensor ts' = deref_tensor ts" by (rule frame_deref_tensor)
next
  assume h: "wf_cryst cs \<and> CrystDataset_getitem_st f32 i cs = (r1, cs1) \<and>
          CrystDataset_getitem_st f32 i cs1 = (r2, cs2)"
  then have wf: "wf_cryst cs" and a: "CrystDataset_getitem_st f32 i cs = (r1, cs1)"
    and b: "CrystDataset_getitem_st f32 i cs1 = (r2, cs2)" by simp_all
  note f1 = frame_cryst_getitem [OF a] and f2 = frame_cryst_getitem [OF b]
  from frame_trans [OF f1 f2] show "st_self cs2 = st_self cs" by (simp add: frame_def)
  from frame_trans [OF f1 f2] show "prefix (st_heap cs) (st_heap cs2)" by (simp add: frame_def)
  from cryst_getitem_sim [OF wf a]
  show "result_value (st_heap cs1) r1 = CrystDataset_getitem f32 (deref_cryst cs) i" by simp
  from cryst_getitem_twice [OF wf a b]
  show "result_value (st_heap cs2) r2 = result_value (st_heap cs2) r1" .
  from cryst_getitem_sim [OF wf a] have "\<forall>x. r1 = Inr x \<longrightarrow> wf_sample (st_heap cs1) x" by simp
  from frame_result_value [OF f2 this]
  show "result_value (st_heap cs2) r1 = result_value (st_heap cs1) r1" .
next
  assume h: "wf_tensor ts \<and> TensorCrystDataset_getitem_st f32 i ts = (t1, ts1) \<and>
          TensorCrystDataset_getitem_st f32 i ts1 = (t2, ts2)"
  then have wf: "wf_tensor ts" and a: "TensorCrystDataset_getitem_st f32 i ts = (t1, ts1)"
    and b: "TensorCrystDataset_getitem_st f32 i ts1 = (t2, ts2)" by simp_all
  note f1 = frame_tensor_getitem [OF a] and f2 = frame_tensor_getitem [OF b]
  from frame_trans [OF f1 f2] show "st_self ts2 = st_self ts" by (simp add: frame_def)
  from frame_trans [OF f1 f2] show "prefix (st_heap ts) (st_heap ts2)" by (simp add: frame_def)
  from tensor_getitem_sim [OF wf a]
  show "result_value (st_heap ts1) t1 = TensorCrystDataset_getitem f32 (deref_tensor ts) i" by simp
  from tensor_getitem_twice [OF wf a b]
  show "result_value (st_heap ts2) t2 = result_value (st_heap ts2) t1" .
  from tensor_getitem_sim [OF wf a] have "\<forall>x. t1 = Inr x \<longrightarrow> wf_sample (st_heap ts1) x" by simp
  from frame_result_value [OF f2 this]
  show "result_value (st_heap ts2) t1 = result_value (st_heap ts1) t1" .
next
  assume "cryst_run f32 ps cs = (zs, cs3)"
  from len_cryst_run [OF this]
  show "fst (CrystDataset_len_st cs3) = fst (CrystDataset_len_st cs)"
    by (simp add: CrystDataset_len_st_def)
next
  assume "tensor_run f32 ps ts = (ws, ts3)"
  from len_tensor_run [OF this]
  show "fst (TensorCrystDataset_len_st ts3) = fst (TensorCrystDataset_len_st ts)"
    by (simp add: TensorCrystDataset_len_st_def)
qed

theorem reads_leave_state_unchanged_witness:
  "wf_cryst cstate0 \<and>
   CrystDataset_getitem_st id 0 cstate0 = (Inr sample0, cstate0\<lparr>st_heap := heap0 @ new_buffers0\<rparr>) \<and>
   st_self (snd (CrystDataset_getitem_st id 0 (cstate0\<lparr>st_heap := heap0 @ new_buffers0\<rparr>)))
     = st_self cstate0 \<and>
   prefix (st_heap cstate0)
     (st_heap (snd (CrystDataset_getitem_st id 0 (cstate0\<lparr>st_heap := heap0 @ new_buffers0\<rparr>)))) \<and>
   result_value
     (st_heap (snd (CrystDataset_getitem_st id 0 (cstate0\<lparr>st_heap := heap0 @ new_buffers0\<rparr>))))
     (fst (CrystDataset_getitem_st id 0 (cstate0\<lparr>st_heap := heap0 @ new_buffers0\<rparr>)))
   = result_value
     (st_heap (snd (CrystDataset_getitem_st id 0 (cstate0\<lparr>st_heap := heap0 @ new_buffers0\<rparr>))))
     (Inr sample0)"
proof -
  have q: "\<forall>q\<in>set [At 0, Len]. is_read q" by simp
  have b: "CrystDataset_getitem_st id 0 (cstate0\<lparr>st_heap := heap0 @ new_buffers0\<rparr>)
      = (fst (CrystDataset_getitem_st id 0 (cstate0\<lparr>st_heap := heap0 @ new_buffers0\<rparr>)),
         snd (CrystDataset_getitem_st id 0 (cstate0\<lparr>st_heap := heap0 @ new_buffers0\<rparr>)))"
    by simp
  note t = reads_leave_state_unchanged [OF q, where ?f32.0 = id and cs = cstate0 and i = 0
      and ?r1.0 = "Inr sample0" and ?cs1.0 = "cstate0\<lparr>st_heap := heap0 @ new_buffers0\<rparr>"
      and ?r2.0 = "fst (CrystDataset_getitem_st id 0 (cstate0\<lparr>st_heap := heap0 @ new_buffers0\<rparr>))"
      and ?cs2.0 = "snd (CrystDataset_getitem_st id 0 (cstate0\<lparr>st_heap := heap0 @ new_buffers0\<rparr>))"]
  from t wf_cstate0 getitem_cstate0 b show ?thesis by blast
qed

section \<open>The cache decision (C2)\<close>



section \<open>The augmentation runs once (C6)\<close>

text \<open>
  C6: once the records are obtained (preprocessed and dumped, or loaded; or preprocessed
  from the arrays for the label-free class), the constructor calls
  \<^verbatim>\<open>add_scaled_lattice_prop\<close> exactly once, as its last step, on the whole list obtained,
  and returns the dataset over the augmented list or the error of the augmentation.
  Every dataset returned has both scaler attributes \<^verbatim>\<open>None\<close>, so no scaler is attached
  before the augmentation; and no construction calls it more than once.
\<close>

theorem scaled_lattice_once:
  "(CrystDataset_init env a w = (r, w') \<longrightarrow>
      (\<forall>recs.
          (a_force_process a \<or> \<not> path_exists w (a_save_path a)) \<and>
          preprocess env (a_path a) (a_preprocess_workers a) (a_niggli a)
            (a_primitive a) (a_graph_method a) [a_prop a] = Inr recs \<and>
          fs_open_wb (fs w) (a_save_path a) = None
          \<or>
          \<not> a_force_process a \<and> path_exists w (a_save_path a) \<and>
          fs_open_rb (fs w) (a_save_path a) = Inr (Pickled recs)
        \<longrightarrow>
          count_events is_add_scaled_call (new_events w w') = 1 \<and>
          last (new_events w w') = Call_add_scaled_lattice_prop recs (a_lattice_scale_method a) \<and>
          r = (case add_scaled_lattice_prop env recs (a_lattice_scale_method a) of
                 Inl e \<Rightarrow> Inl e
               | Inr recs' \<Rightarrow> Inr (CrystDataset_object a recs'))) \<and>
      (\<forall>ds. r = Inr ds \<longrightarrow>
          count_events is_add_scaled_call (new_events w w') = 1 \<and>
          cd_scaler ds = None \<and> cd_lattice_scaler ds = None) \<and>
      count_events is_add_scaled_call (new_events w w') \<le> 1) \<and>
   (TensorCrystDataset_init env ta w = (r', w'') \<longrightarrow>
      (\<forall>recs.
          preprocess_tensors env (ta_crystal_array_list ta) (ta_niggli ta) (ta_primitive ta)
            (ta_graph_method ta) = Inr recs
        \<longrightarrow>
          new_events w w'' =
            [Call_preprocess_tensors (ta_niggli ta) (ta_primitive ta) (ta_graph_method ta),
             Call_add_scaled_lattice_prop recs (ta_lattice_scale_method ta)] \<and>
          r' = (case add_scaled_lattice_prop env recs (ta_lattice_scale_method ta) of
                  Inl e \<Rightarrow> Inl e
                | Inr recs' \<Rightarrow> Inr (TensorCrystDataset_object ta recs'))) \<and>
      (\<forall>td. r' = Inr td \<longrightarrow>
          count_events is_add_scaled_call (new_events w w'') = 1 \<and>
          td_scaler td = None \<and> td_lattice_scaler td = None) \<and>
      count_events is_add_scaled_call (new_events w w'') \<le> 1)"
proof (intro conjI impI allI)
  fix recs
  assume i: "CrystDataset_init env a w = (r, w')"
    and h: "(a_force_process a \<or> \<not> path_exists w (a_save_path a)) \<and>
          preprocess env (a_path a) (a_preprocess_workers a) (a_niggli a)
            (a_primitive a) (a_graph_method a) [a_prop a] = Inr recs \<and>
          fs_open_wb (fs w) (a_save_path a) = None
          \<or>
          \<not> a_force_process a \<and> path_exists w (a_save_path a) \<and>
          fs_open_rb (fs w) (a_save_path a) = Inr (Pickled recs)"
  have "count_events is_add_scaled_call (new_events w w') = 1 \<and>
          last (new_events w w') = Call_add_scaled_lattice_prop recs (a_lattice_scale_method a) \<and>
          r = (case add_scaled_lattice_prop env recs (a_lattice_scale_method a) of
                 Inl e \<Rightarrow> Inl e
               | Inr recs' \<Rightarrow> Inr (CrystDataset_object a recs'))"
  proof (cases "compute_path a w")
    case True
    with h i show ?thesis
      by (auto simp: init_compute_cases [OF True] compute_path_def new_events_def
            count_events_def fst_cryst_finish)
  next
    case False
    with h i show ?thesis
      by (auto simp: init_load_cases [OF False] compute_path_def new_events_def
            count_events_def fst_cryst_finish)
  qed
  then show "count_events is_add_scaled_call (new_events w w') = 1"
    and "last (new_events w w') = Call_add_scaled_lattice_prop recs (a_lattice_scale_method a)"
    and "r = (case add_scaled_lattice_prop env recs (a_lattice_scale_method a) of
                 Inl e \<Rightarrow> Inl e
               | Inr recs' \<Rightarrow> Inr (CrystDataset_object a recs'))"
    by simp_all
next
  fix ds
  assume i: "CrystDataset_init env a w = (r, w')" and r: "r = Inr ds"
  have "count_events is_add_scaled_call (new_events w w') = 1 \<and>
          cd_scaler ds = None \<and> cd_lattice_scaler ds = None"
  proof (cases "compute_path a w")
    case True
    with r i show ?thesis
      by (auto simp: init_compute_cases [OF True] new_events_def count_events_def
            fst_cryst_finish object_scalers split: sum.splits option.splits)
  next
    case False
    with r i show ?thesis
      by (auto simp: init_load_cases [OF False] new_events_def count_events_def
            fst_cryst_finish object_scalers split: sum.splits blob.splits)
  qed
  then show "count_events is_add_scaled_call (new_events w w') = 1"
    and "cd_scaler ds = None" and "cd_lattice_scaler ds = None"
    by simp_all
next
  assume i: "CrystDataset_init env a w = (r, w')"
  show "count_events is_add_scaled_call (new_events w w') \<le> 1"
  proof (cases "compute_path a w")
    case True
    with i show ?thesis
      by (auto simp: init_compute_cases [OF True] new_events_def count_events_def
            split: sum.splits option.splits)
  next
    case False
    with i show ?thesis
      by (auto simp: init_load_cases [OF False] new_events_def count_events_def
            split: sum.splits blob.splits)
  qed
next
  fix recs
  assume i: "TensorCrystDataset_init env ta w = (r', w'')"
    and p: "preprocess_tensors env (ta_crystal_array_list ta) (ta_niggli ta) (ta_primitive ta)
            (ta_graph_method ta) = Inr recs"
  from i p show "new_events w w'' =
            [Call_preprocess_tensors (ta_niggli ta) (ta_primitive ta) (ta_graph_method ta),
             Call_add_scaled_lattice_prop recs (ta_lattice_scale_method ta)]"
    by (auto simp: tensor_init_cases new_events_def)
  from i p show "r' = (case add_scaled_lattice_prop env recs (ta_lattice_scale_method ta) of
                  Inl e \<Rightarrow> Inl e
                | Inr recs' \<Rightarrow> Inr (TensorCrystDataset_object ta recs'))"
    by (auto simp: tensor_init_cases)
next
  fix td
  assume i: "TensorCrystDataset_init env ta w = (r', w'')" and r: "r' = Inr td"
  from i r have "count_events is_add_scaled_call (new_events w w'') = 1 \<and>
          td_scaler td = None \<and> td_lattice_scaler td = None"
    by (auto simp: tensor_init_cases new_events_def count_events_def object_scalers
          split: sum.splits)
  then show "count_events is_add_scaled_call (new_events w w'') = 1"
    and "td_scaler td = None" and "td_lattice_scaler td = None"
    by simp_all
next
  assume i: "TensorCrystDataset_init env ta w = (r', w'')"
  then show "count_events is_add_scaled_call (new_events w w'') \<le> 1"
    by (auto simp: tensor_init_cases new_events_def count_events_def split: sum.splits)
qed

theorem scaled_lattice_once_witness:
  "count_events is_add_scaled_call
     (new_events world0 (snd (CrystDataset_init env0 args0 world0))) = 1 \<and>
   last (new_events world0 (snd (CrystDataset_init env0 args0 world0)))
     = Call_add_scaled_lattice_prop [raw0] (a_lattice_scale_method args0) \<and>
   fst (CrystDataset_init env0 args0 world0) = Inr ds0 \<and>
   count_events is_add_scaled_call
     (new_events world1 (snd (CrystDataset_init env0 args0 world1))) = 1 \<and>
   fst (CrystDataset_init env0 args0 world1) = Inr ds0 \<and>
   new_events world0 (snd (TensorCrystDataset_init env0 targs0 world0))
     = [Call_preprocess_tensors (ta_niggli targs0) (ta_primitive targs0) (ta_graph_method targs0),
        Call_add_scaled_lattice_prop
          [[(''graph_arrays'', PyGraphArrays ga0)], [(''graph_arrays'', PyGraphArrays ga0)]]
          (ta_lattice_scale_method targs0)] \<and>
   fst (TensorCrystDataset_init env0 targs0 world0) = Inr td2"
proof -
  note t0 = scaled_lattice_once [where env = env0 and a = args0 and w = world0
      and r = "fst (CrystDataset_init env0 args0 world0)"
      and w' = "snd (CrystDataset_init env0 args0 world0)"
      and ta = targs0
      and r' = "fst (TensorCrystDataset_init env0 targs0 world0)"
      and w'' = "snd (TensorCrystDataset_init env0 targs0 world0)"]
  note t1 = scaled_lattice_once [where env = env0 and a = args0 and w = world1
      and r = "fst (CrystDataset_init env0 args0 world1)"
      and w' = "snd (CrystDataset_init env0 args0 world1)"
      and ta = targs0
      and r' = "fst (TensorCrystDataset_init env0 targs0 world1)"
      and w'' = "snd (TensorCrystDataset_init env0 targs0 world1)"]
  have p: "\<And>x. x = (fst x, snd x)" by simp
  from t0 p env0_preprocess world0_compute world0_writable
  have a: "count_events is_add_scaled_call
             (new_events world0 (snd (CrystDataset_init env0 args0 world0))) = 1 \<and>
           last (new_events world0 (snd (CrystDataset_init env0 args0 world0)))
             = Call_add_scaled_lattice_prop [raw0] (a_lattice_scale_method args0) \<and>
           fst (CrystDataset_init env0 args0 world0)
             = (case add_scaled_lattice_prop env0 [raw0] (a_lattice_scale_method args0) of
                  Inl e \<Rightarrow> Inl e
                | Inr recs' \<Rightarrow> Inr (CrystDataset_object args0 recs'))"
    by blast
  from t1 p world1_load world1_stored
  have b: "count_events is_add_scaled_call
             (new_events world1 (snd (CrystDataset_init env0 args0 world1))) = 1 \<and>
           fst (CrystDataset_init env0 args0 world1)
             = (case add_scaled_lattice_prop env0 [raw0] (a_lattice_scale_method args0) of
                  Inl e \<Rightarrow> Inl e
                | Inr recs' \<Rightarrow> Inr (CrystDataset_object args0 recs'))"
    by blast
  from t0 p env0_preprocess_tensors
  have c: "new_events world0 (snd (TensorCrystDataset_init env0 targs0 world0))
     = [Call_preprocess_tensors (ta_niggli targs0) (ta_primitive targs0) (ta_graph_method targs0),
        Call_add_scaled_lattice_prop
          [[(''graph_arrays'', PyGraphArrays ga0)], [(''graph_arrays'', PyGraphArrays ga0)]]
          (ta_lattice_scale_method targs0)] \<and>
       fst (TensorCrystDataset_init env0 targs0 world0)
         = (case add_scaled_lattice_prop env0
               [[(''graph_arrays'', PyGraphArrays ga0)], [(''graph_arrays'', PyGraphArrays ga0)]]
               (ta_lattice_scale_method targs0) of
              Inl e \<Rightarrow> Inl e
            | Inr recs' \<Rightarrow> Inr (TensorCrystDataset_object targs0 recs'))"
    by blast
  from a b c show ?thesis by (simp only: env0_result env0_tensor_result)
qed

section \<open>The label-free dataset (C7)\<close>

text \<open>
  C7: constructing a \<^verbatim>\<open>TensorCrystDataset\<close> leaves the file system as it was and performs
  no pickle operation; its first step is the call of \<^verbatim>\<open>preprocess_tensors\<close>; and every
  sample it returns has no \<^verbatim>\<open>y\<close>. (The collaborators are functions of their arguments
  here: what they do to files themselves is outside this file.)
\<close>

theorem tensor_dataset_no_files_no_target:
  assumes "TensorCrystDataset_init env a w = (r, w')"
  shows "fs w' = fs w \<and>
         count_events is_file_event (new_events w w') = 0 \<and>
         (\<exists>evs. new_events w w' =
            Call_preprocess_tensors (ta_niggli a) (ta_primitive a) (ta_graph_method a) # evs) \<and>
         (\<forall>td index g. r = Inr td \<and> TensorCrystDataset_getitem f32 td index = Inr g
            \<longrightarrow> d_y g = None)"
proof (intro conjI allI impI)
  from assms show "fs w' = fs w"
    by (auto simp: tensor_init_cases split: sum.splits)
  from assms show "count_events is_file_event (new_events w w') = 0"
    by (auto simp: tensor_init_cases new_events_def count_events_def split: sum.splits)
  from assms show "\<exists>evs. new_events w w' =
            Call_preprocess_tensors (ta_niggli a) (ta_primitive a) (ta_graph_method a) # evs"
    by (auto simp: tensor_init_cases new_events_def split: sum.splits)
next
  fix td index g
  assume "r = Inr td \<and> TensorCrystDataset_getitem f32 td index = Inr g"
  then show "d_y g = None" by (auto dest: tensor_getitem_no_target)
qed

theorem tensor_dataset_no_files_no_target_witness:
  "fs (snd (TensorCrystDataset_init env0 targs0 world0)) = fs world0 \<and>
   count_events is_file_event
     (new_events world0 (snd (TensorCrystDataset_init env0 targs0 world0))) = 0 \<and>
   fst (TensorCrystDataset_init env0 targs0 world0) = Inr td2 \<and>
   TensorCrystDataset_getitem id td2 1 = Inr (graph_data id ga0 None) \<and>
   d_y (graph_data id ga0 None) = None"
proof -
  have g: "TensorCrystDataset_getitem id td2 1 = Inr (graph_data id ga0 None)"
    by (simp add: TensorCrystDataset_getitem_def td2_def list_getitem_def dict_getitem_def
          unpack_graph_arrays_def)
  have i: "fst (TensorCrystDataset_init env0 targs0 world0) = Inr td2"
    by (simp add: tensor_init_cases env0_preprocess_tensors env0_tensor_result)
  note t = tensor_dataset_no_files_no_target [OF prod.collapse [symmetric],
      where env = env0 and a = targs0 and w = world0 and ?f32.0 = id]
  from t g i show ?thesis by blast
qed

section \<open>The summary (C8)\<close>

text \<open>
  C8, as stated, asks that the summary of a labelled dataset preserves the property name,
  the two flags, the graph method and the lattice-scaling policy. The summary of \<open>ds0\<close>
  contains none of them.
\<close>

theorem repr_counterexample:
  "cd_prop ds0 = ''formation_energy'' \<and> \<not> sublist ''formation_energy'' (CrystDataset_repr ds0) \<and>
   cd_graph_method ds0 = ''crystalnn'' \<and> \<not> sublist ''crystalnn'' (CrystDataset_repr ds0) \<and>
   cd_lattice_scale_method ds0 = ''scale_length'' \<and> \<not> sublist ''scale_length'' (CrystDataset_repr ds0) \<and>
   cd_niggli ds0 = True \<and> \<not> sublist ''True'' (CrystDataset_repr ds0) \<and>
   cd_primitive ds0 = False \<and> \<not> sublist ''False'' (CrystDataset_repr ds0)"
  by (simp add: ds0_def CrystDataset_repr_def repr_str_def repr_char_def is_printable_def
        Let_def sublist_Cons_right)

text \<open>
  C8, amended: the summary is the class name with the \<^verbatim>\<open>repr\<close> of the name, of the path
  and of the save path; it contains those three strings verbatim when they consist of
  printable characters other than the backslash and the single quote; and it is the
  same whatever the property name, the flags, the graph method and the lattice-scaling
  policy are.
\<close>

theorem repr_contents:
  "CrystDataset_repr ds =
     ''CrystDataset(self.name='' @ repr_str (cd_name ds) @
     '', self.path='' @ repr_str (cd_path ds) @
     '', self.save_path='' @ repr_str (cd_save_path ds) @ '')'' \<and>
   sublist (repr_str (cd_name ds)) (CrystDataset_repr ds) \<and>
   sublist (repr_str (cd_path ds)) (CrystDataset_repr ds) \<and>
   sublist (repr_str (cd_save_path ds)) (CrystDataset_repr ds) \<and>
   (plain_str (cd_name ds) \<longrightarrow> sublist (cd_name ds) (CrystDataset_repr ds)) \<and>
   (plain_str (cd_path ds) \<longrightarrow> sublist (cd_path ds) (CrystDataset_repr ds)) \<and>
   (plain_str (cd_save_path ds) \<longrightarrow> sublist (cd_save_path ds) (CrystDataset_repr ds)) \<and>
   CrystDataset_repr (ds\<lparr>cd_prop := p, cd_niggli := n, cd_primitive := pr,
       cd_graph_method := gm, cd_lattice_scale_method := lm\<rparr>) = CrystDataset_repr ds"
proof (intro conjI impI)
  show "CrystDataset_repr ds =
     ''CrystDataset(self.name='' @ repr_str (cd_name ds) @
     '', self.path='' @ repr_str (cd_path ds) @
     '', self.save_path='' @ repr_str (cd_save_path ds) @ '')''"
    by (simp add: CrystDataset_repr_def)
  show "sublist (repr_str (cd_name ds)) (CrystDataset_repr ds)"
    unfolding CrystDataset_repr_def by (rule sublist_appendI)
  have "sublist (repr_str (cd_path ds))
          ((''CrystDataset(self.name='' @ repr_str (cd_name ds) @ '', self.path='') @
           repr_str (cd_path ds) @
           ('', self.save_path='' @ repr_str (cd_save_path ds) @ '')''))"
    by (rule sublist_appendI)
  then show "sublist (repr_str (cd_path ds)) (CrystDataset_repr ds)"
    by (simp add: CrystDataset_repr_def)
  have "sublist (repr_str (cd_save_path ds))
          ((''CrystDataset(self.name='' @ repr_str (cd_name ds) @ '', self.path='' @
           repr_str (cd_path ds) @ '', self.save_path='') @ repr_str (cd_save_path ds) @ '')'')"
    by (rule sublist_appendI)
  then show s3: "sublist (repr_str (cd_save_path ds)) (CrystDataset_repr ds)"
    by (simp add: CrystDataset_repr_def)
next
  assume "plain_str (cd_name ds)"
  then have r: "repr_str (cd_name ds) = [CHR 0x27] @ cd_name ds @ [CHR 0x27]"
    by (rule repr_str_plain)
  show "sublist (cd_name ds) (CrystDataset_repr ds)"
    unfolding CrystDataset_repr_def r by (rule sublist_quoted)
next
  assume "plain_str (cd_path ds)"
  then have r: "repr_str (cd_path ds) = [CHR 0x27] @ cd_path ds @ [CHR 0x27]"
    by (rule repr_str_plain)
  have "sublist (cd_path ds)
          ((''CrystDataset(self.name='' @ repr_str (cd_name ds) @ '', self.path='') @
           ([CHR 0x27] @ cd_path ds @ [CHR 0x27]) @
           ('', self.save_path='' @ repr_str (cd_save_path ds) @ '')''))"
    by (rule sublist_quoted)
  then show "sublist (cd_path ds) (CrystDataset_repr ds)"
    by (simp add: CrystDataset_repr_def r)
next
  assume "plain_str (cd_save_path ds)"
  then have r: "repr_str (cd_save_path ds) = [CHR 0x27] @ cd_save_path ds @ [CHR 0x27]"
    by (rule repr_str_plain)
  have "sublist (cd_save_path ds)
          ((''CrystDataset(self.name='' @ repr_str (cd_name ds) @ '', self.path='' @
           repr_str (cd_path ds) @ '', self.save_path='') @
           ([CHR 0x27] @ cd_save_path ds @ [CHR 0x27]) @ '')'')"
    by (rule sublist_quoted)
  then show "sublist (cd_save_path ds) (CrystDataset_repr ds)"
    by (simp add: CrystDataset_repr_def r)
next
  show "CrystDataset_repr (ds\<lparr>cd_prop := p, cd_niggli := n, cd_primitive := pr,
       cd_graph_method := gm, cd_lattice_scale_method := lm\<rparr>) = CrystDataset_repr ds"
    by (simp add: CrystDataset_repr_def)
qed

theorem repr_contents_witness:
  "plain_str (cd_name ds0) \<and> sublist ''perov'' (CrystDataset_repr ds0) \<and>
   plain_str (cd_path ds0) \<and> sublist ''data/train.csv'' (CrystDataset_repr ds0) \<and>
   plain_str (cd_save_path ds0) \<and> sublist ''data/train.pt'' (CrystDataset_repr ds0) \<and>
   CrystDataset_repr (ds0\<lparr>cd_prop := ''band_gap'', cd_niggli := False, cd_primitive := True,
       cd_graph_method := ''voronoi'', cd_lattice_scale_method := ''scale_volume''\<rparr>)
     = CrystDataset_repr ds0 \<and>
   \<not> plain_str [CHR 0xA0] \<and> repr_str [CHR 0xA0] = [CHR 0x27, CHR 0x5C, CHR ''x'', CHR ''a'', CHR ''0'', CHR 0x27]"
proof -
  have a: "plain_str (cd_name ds0)" "plain_str (cd_path ds0)" "plain_str (cd_save_path ds0)"
    by (simp_all add: ds0_def plain_str_def plain_char_def is_printable_def)
  have b: "cd_name ds0 = ''perov''" "cd_path ds0 = ''data/train.csv''"
      "cd_save_path ds0 = ''data/train.pt''"
    by (simp_all add: ds0_def)
  note t = repr_contents [where ds = ds0 and p = "''band_gap''" and n = False and pr = True
      and gm = "''voronoi''" and lm = "''scale_volume''"]
  from t a have "sublist (cd_name ds0) (CrystDataset_repr ds0)" by blast
  then have c1: "sublist ''perov'' (CrystDataset_repr ds0)" by (simp only: b)
  from t a have "sublist (cd_path ds0) (CrystDataset_repr ds0)" by blast
  then have c2: "sublist ''data/train.csv'' (CrystDataset_repr ds0)" by (simp only: b)
  from t a have "sublist (cd_save_path ds0) (CrystDataset_repr ds0)" by blast
  then have c3: "sublist ''data/train.pt'' (CrystDataset_repr ds0)" by (simp only: b)
  from t have c4: "CrystDataset_repr (ds0\<lparr>cd_prop := ''band_gap'', cd_niggli := False, cd_primitive := True,
       cd_graph_method := ''voronoi'', cd_lattice_scale_method := ''scale_volume''\<rparr>)
     = CrystDataset_repr ds0" by blast
  have c5: "\<not> plain_str [CHR 0xA0]"
    by (simp add: plain_str_def plain_char_def is_printable_def)
  have c6: "repr_str [CHR 0xA0] = [CHR 0x27, CHR 0x5C, CHR ''x'', CHR ''a'', CHR ''0'', CHR 0x27]"
    by (simp add: repr_str_def repr_char_def is_printable_def hex_digit_def Let_def)
  from a c1 c2 c3 c4 c5 c6 show ?thesis by (intro conjI)
qed

section \<open>What the cache file holds (C9)\<close>



end
